theory Spec2Isabelle
  imports Main "HOL-Library.AList"
begin

section \<open>Values exchanged by the pipeline\<close>

text \<open>
  The events are JSON documents, in Python the result of \<^verbatim>\<open>json.loads\<close>: \<^verbatim>\<open>None\<close>,
  booleans, integers, floats, strings, lists and dicts. A dict is an association list in
  insertion order; \<^verbatim>\<open>d[k] = v\<close> is \<open>AList.update k v d\<close> (overwrite in place, or append).
  A float is kept as mantissa and binary exponent; no function below looks inside it
  except the truth test.
\<close>

datatype json =
    JNull
  | JBool bool
  | JInt int
  | JFloat int int
  | JStr string
  | JArr "json list"
  | JObj "(string \<times> json) list"

type_synonym event = "(string \<times> json) list"

text \<open>\<^verbatim>\<open>d.get(k, default)\<close> and \<^verbatim>\<open>k in d\<close>.\<close>

definition dict_get :: "event \<Rightarrow> string \<Rightarrow> json \<Rightarrow> json" where
  "dict_get d k dflt = (case map_of d k of None \<Rightarrow> dflt | Some v \<Rightarrow> v)"

definition dict_has :: "event \<Rightarrow> string \<Rightarrow> bool" where
  "dict_has d k = (map_of d k \<noteq> None)"

text \<open>
  A raised exception. The only class the code tells apart from the others is
  \<^verbatim>\<open>TopicAlreadyExistsError\<close>; every other class is \<open>Exception\<close>. Both carry the text
  that \<^verbatim>\<open>str(e)\<close> gives.
\<close>

datatype error = TopicAlreadyExistsError string | Exception string

fun str_error :: "error \<Rightarrow> string" where
  "str_error (TopicAlreadyExistsError m) = m"
| "str_error (Exception m) = m"

subsection \<open>Formatting\<close>

text \<open>Python's decimal rendering of an integer, as an f-string writes it.\<close>

definition digit_char :: "nat \<Rightarrow> char" where
  "digit_char d = char_of (48 + d)"

function show_nat :: "nat \<Rightarrow> string" where
  "show_nat n = (if n < 10 then [digit_char n] else show_nat (n div 10) @ [digit_char (n mod 10)])"
  by pat_completeness auto
termination
  by (relation "measure (\<lambda>n. n)") auto

declare show_nat.simps [simp del]

definition show_int :: "int \<Rightarrow> string" where
  "show_int i = (if i < 0 then CHR ''-'' # show_nat (nat (- i)) else show_nat (nat i))"

text \<open>
  An f-string field \<^verbatim>\<open>{v}\<close> writes a string as it is and any other value through
  Python's \<^verbatim>\<open>str\<close>, which is a parameter here (\<open>str_of\<close>): its output on floats, lists
  and dicts is the interpreter's.
\<close>

definition format_value :: "(json \<Rightarrow> string) \<Rightarrow> json \<Rightarrow> string" where
  "format_value str_of v = (case v of JStr s \<Rightarrow> s | _ \<Rightarrow> str_of v)"

text \<open>\<^verbatim>\<open>s.replace('Z', '+00:00')\<close>: every occurrence is replaced.\<close>

definition replace_Z :: "string \<Rightarrow> string" where
  "replace_Z s = concat (map (\<lambda>c. if c = CHR ''Z'' then ''+00:00'' else [c]) s)"

section \<open>The timestamp parser\<close>

text \<open>
  \<^verbatim>\<open>datetime.fromisoformat\<close> belongs to the Python library, and the strings it accepts
  differ from one version of the interpreter to the next. It is therefore a parameter of
  every function that reaches it: \<open>fromisoformat s\<close> is the \<^verbatim>\<open>datetime\<close> returned for
  \<open>s\<close>, or \<open>None\<close> when the call raises. Nothing is assumed about which strings are
  accepted; the code reads the year and the month of the result only.
\<close>

record datetime =
  year :: int
  month :: int
  day :: int
  hour :: int
  minute :: int
  second :: int
  microsecond :: int
  utcoffset :: "int option"

section \<open>The consumer: enrichment\<close>

text \<open>
  \<^verbatim>\<open>derive_season\<close> receives whatever \<^verbatim>\<open>event.get('timestamp', '')\<close> returned. A value
  that is not a string has no \<^verbatim>\<open>replace\<close>; that \<^verbatim>\<open>AttributeError\<close> and the parser's
  \<^verbatim>\<open>ValueError\<close> both end in the handler that returns \<^verbatim>\<open>"unknown"\<close>.
\<close>

definition derive_season :: "(string \<Rightarrow> datetime option) \<Rightarrow> json \<Rightarrow> string" where
  "derive_season fromisoformat timestamp_str =
     (case timestamp_str of
        JStr s \<Rightarrow>
          (case fromisoformat (replace_Z s) of
             None \<Rightarrow> ''unknown''
           | Some timestamp \<Rightarrow>
               (let y = year timestamp
                in if month timestamp < 8 then show_int (y - 1) @ ''/'' @ show_int y
                   else show_int y @ ''/'' @ show_int (y + 1)))
      | _ \<Rightarrow> ''unknown'')"

text \<open>
  A Kafka record as the event source mapping delivers it; the code reads its \<^verbatim>\<open>value\<close>
  only. \<open>decode\<close> stands for \<^verbatim>\<open>json.loads(base64.b64decode(v).decode('utf-8'))\<close>, with
  \<open>None\<close> when any of the three raises. A decoded value that is not a dict has no
  \<^verbatim>\<open>get\<close>: the \<^verbatim>\<open>AttributeError\<close> is caught with the rest and the record yields
  \<^verbatim>\<open>None\<close>.
\<close>

record kafka_record =
  rec_value :: "string option"

definition process_record ::
  "(string \<Rightarrow> json option) \<Rightarrow> (string \<Rightarrow> datetime option) \<Rightarrow> (json \<Rightarrow> string) \<Rightarrow> kafka_record \<Rightarrow> event option" where
  "process_record decode fromisoformat str_of rec =
     (case rec_value rec of
        None \<Rightarrow> None
      | Some v \<Rightarrow>
          (case decode v of
             Some (JObj event) \<Rightarrow>
               (let event_type = dict_get event ''event_type'' (JStr ''unknown'');
                    timestamp = dict_get event ''timestamp'' (JStr '''');
                    season = derive_season fromisoformat timestamp;
                    event1 = AList.update ''season'' (JStr season) event;
                    event2 = (if dict_has event1 ''timestamp'' \<and> \<not> dict_has event1 ''event_timestamp''
                              then AList.update ''event_timestamp''
                                     (dict_get event1 ''timestamp'' JNull) event1
                              else event1);
                    event_timestamp = dict_get event2 ''event_timestamp'' (JStr '''')
                in Some (AList.update ''event_type_timestamp''
                           (JStr (format_value str_of event_type @ ''#''
                                    @ format_value str_of event_timestamp)) event2))
           | _ \<Rightarrow> None))"

section \<open>The consumer: the store and the bulk write\<close>

text \<open>
  The store is a DynamoDB table whose primary key is \<^verbatim>\<open>match_id\<close> (partition) with
  \<^verbatim>\<open>event_timestamp\<close> (sort), as the unit tests create it. A put replaces the item that
  has the same key, if there is one. The table is the list of its items.
\<close>

type_synonym item = event
type_synonym store = "item list"

definition item_key :: "item \<Rightarrow> json option \<times> json option" where
  "item_key it = (map_of it ''match_id'', map_of it ''event_timestamp'')"

definition store_put :: "store \<Rightarrow> item \<Rightarrow> store" where
  "store_put t it = filter (\<lambda>x. item_key x \<noteq> item_key it) t @ [it]"

text \<open>
  \<^verbatim>\<open>table.batch_writer()\<close> is boto3's: \<^verbatim>\<open>put_item\<close> appends to a buffer and sends the
  buffer once it holds 25 requests; leaving the \<^verbatim>\<open>with\<close> block sends what is left, also
  when the block was left by an exception. A physical call either stores all its items
  or raises: \<open>faults n\<close> is the exception of the \<open>n\<close>-th call of this writer, if any
  (validation, throttling, connectivity: the service decides), and the resending of
  unprocessed items is taken to happen inside the call.
\<close>

record batch_writer =
  items_buffer :: "item list"
  calls :: nat
  table :: store

definition flush_amount :: nat where
  "flush_amount = 25"

definition flush :: "(nat \<Rightarrow> error option) \<Rightarrow> batch_writer \<Rightarrow> error option \<times> batch_writer" where
  "flush faults w =
     (let items_to_send = take flush_amount (items_buffer w);
          w1 = w\<lparr>items_buffer := drop flush_amount (items_buffer w), calls := Suc (calls w)\<rparr>
      in (case faults (calls w) of
            Some e \<Rightarrow> (Some e, w1)
          | None \<Rightarrow> (None, w1\<lparr>table := foldl store_put (table w) items_to_send\<rparr>)))"

definition writer_put_item :: "(nat \<Rightarrow> error option) \<Rightarrow> batch_writer \<Rightarrow> item \<Rightarrow> error option \<times> batch_writer" where
  "writer_put_item faults w it =
     (let w1 = w\<lparr>items_buffer := items_buffer w @ [it]\<rparr>
      in if length (items_buffer w1) \<ge> flush_amount then flush faults w1 else (None, w1))"

text \<open>The loop \<^verbatim>\<open>for item in items: batch.put_item(Item=item)\<close>; it stops at an exception.\<close>

fun put_items :: "(nat \<Rightarrow> error option) \<Rightarrow> batch_writer \<Rightarrow> item list \<Rightarrow> error option \<times> batch_writer" where
  "put_items faults w [] = (None, w)"
| "put_items faults w (it # its) =
     (case writer_put_item faults w it of
        (Some e, w1) \<Rightarrow> (Some e, w1)
      | (None, w1) \<Rightarrow> put_items faults w1 its)"

text \<open>\<^verbatim>\<open>__exit__\<close>: \<^verbatim>\<open>while self._items_buffer: self._flush()\<close>.\<close>

function writer_exit :: "(nat \<Rightarrow> error option) \<Rightarrow> batch_writer \<Rightarrow> error option \<times> batch_writer" where
  "writer_exit faults w =
     (if items_buffer w = [] then (None, w)
      else (case flush faults w of
              (Some e, w1) \<Rightarrow> (Some e, w1)
            | (None, w1) \<Rightarrow> writer_exit faults w1))"
  by pat_completeness auto
termination
  by (relation "measure (\<lambda>(faults, w). length (items_buffer w))")
     (auto simp: flush_def flush_amount_def Let_def split: option.splits)

declare writer_exit.simps [simp del]

text \<open>
  The whole \<^verbatim>\<open>with\<close> statement: an exception of \<^verbatim>\<open>__exit__\<close> replaces the one of the
  block, otherwise the block's exception goes on.
\<close>

definition with_batch_writer :: "(nat \<Rightarrow> error option) \<Rightarrow> store \<Rightarrow> item list \<Rightarrow> error option \<times> store" where
  "with_batch_writer faults t items =
     (case put_items faults \<lparr>items_buffer = [], calls = 0, table = t\<rparr> items of
        (r, w1) \<Rightarrow>
          (case writer_exit faults w1 of
             (Some e2, w2) \<Rightarrow> (Some e2, table w2)
           | (None, w2) \<Rightarrow> (r, table w2)))"

text \<open>
  \<^verbatim>\<open>batch_write_to_dynamodb\<close> returns the success count; the table after it is the second
  component. The table handle of \<^verbatim>\<open>init_dynamodb\<close> is taken as given (the deployment
  sets \<^verbatim>\<open>DYNAMODB_TABLE\<close>).
\<close>

definition batch_write_to_dynamodb :: "(nat \<Rightarrow> error option) \<Rightarrow> store \<Rightarrow> item list \<Rightarrow> nat \<times> store" where
  "batch_write_to_dynamodb faults t items =
     (if items = [] then (0, t)
      else (case with_batch_writer faults t items of
              (None, t1) \<Rightarrow> (length items, t1)
            | (Some e, t1) \<Rightarrow> (0, t1)))"

section \<open>The consumer: the handler\<close>

text \<open>
  The invocation's event: \<^verbatim>\<open>records\<close>, when present, maps a partition key to the list of
  that partition's records. Logging and metrics have no effect on the result and are
  left out.
\<close>

record kafka_event =
  records :: "(string \<times> kafka_record list) list option"

record response =
  statusCode :: nat
  message :: string
  event_id :: "json option"

text \<open>The inner loop; \<^verbatim>\<open>if item:\<close> holds for a dict that is not empty.\<close>

fun process_records ::
  "(string \<Rightarrow> json option) \<Rightarrow> (string \<Rightarrow> datetime option) \<Rightarrow> (json \<Rightarrow> string) \<Rightarrow> kafka_record list \<Rightarrow> item list \<Rightarrow> item list" where
  "process_records decode fromisoformat str_of [] processed_items = processed_items"
| "process_records decode fromisoformat str_of (r # rs) processed_items =
     (case process_record decode fromisoformat str_of r of
        None \<Rightarrow> process_records decode fromisoformat str_of rs processed_items
      | Some it \<Rightarrow>
          (if it \<noteq> [] then process_records decode fromisoformat str_of rs (processed_items @ [it])
           else process_records decode fromisoformat str_of rs processed_items))"

text \<open>The outer loop over the partitions, with both accumulators.\<close>

fun process_partitions ::
  "(string \<Rightarrow> json option) \<Rightarrow> (string \<Rightarrow> datetime option) \<Rightarrow> (json \<Rightarrow> string) \<Rightarrow> (string \<times> kafka_record list) list
     \<Rightarrow> nat \<times> item list \<Rightarrow> nat \<times> item list" where
  "process_partitions decode fromisoformat str_of [] acc = acc"
| "process_partitions decode fromisoformat str_of ((partition_key, recs) # ps) (total_records, processed_items) =
     process_partitions decode fromisoformat str_of ps
       (total_records + length recs, process_records decode fromisoformat str_of recs processed_items)"

definition failure_text :: "nat \<Rightarrow> nat \<Rightarrow> string" where
  "failure_text success_count total_records =
     ''Processed '' @ show_nat success_count @ '' out of '' @ show_nat total_records
       @ '' records successfully''"

definition lambda_handler ::
  "(string \<Rightarrow> json option) \<Rightarrow> (string \<Rightarrow> datetime option) \<Rightarrow> (json \<Rightarrow> string) \<Rightarrow> (nat \<Rightarrow> error option) \<Rightarrow> store \<Rightarrow> kafka_event
     \<Rightarrow> (error + response) \<times> store" where
  "lambda_handler decode fromisoformat str_of faults t event =
     (case (case records event of
              Some parts \<Rightarrow>
                (case process_partitions decode fromisoformat str_of parts (0, []) of
                   (total_records, processed_items) \<Rightarrow>
                     (if processed_items \<noteq> []
                      then (case batch_write_to_dynamodb faults t processed_items of
                              (success_count, t1) \<Rightarrow> (success_count, total_records, t1))
                      else (0, total_records, t)))
            | None \<Rightarrow> (0, 0, t)) of
        (success_count, total_records, t1) \<Rightarrow>
          (if success_count \<noteq> total_records
           then (Inl (Exception (failure_text success_count total_records)), t1)
           else (Inr \<lparr>statusCode = 200,
                       message = show_nat success_count @ '' records processed successfully'',
                       event_id = None\<rparr>, t1)))"

section \<open>The producer\<close>

subsection \<open>The topic provisioner\<close>

text \<open>
  The Kafka cluster is outside the repository. Its state is the list of its topics and,
  per topic, the records published. What the administrative client can do wrong is a
  parameter: an exception when connecting (token provider or client constructor), when
  listing, when creating (for a reason other than existence) and when closing; and the
  topics that other producers create between this caller's listing and its creation,
  which is how \<^verbatim>\<open>TopicAlreadyExistsError\<close> comes about.
\<close>

record new_topic =
  name :: string
  num_partitions :: nat
  replication_factor :: nat

record cluster =
  topics :: "new_topic list"
  published :: "(string \<times> string \<times> event) list"

record admin_faults =
  connect_error :: "error option"
  list_error :: "error option"
  racing_topics :: "new_topic list"
  create_error :: "error option"
  close_error :: "error option"

definition list_topics :: "cluster \<Rightarrow> string list" where
  "list_topics c = map name (topics c)"

definition create_topics :: "admin_faults \<Rightarrow> cluster \<Rightarrow> new_topic \<Rightarrow> error option \<times> cluster" where
  "create_topics af c nt =
     (let c1 = c\<lparr>topics := topics c @ racing_topics af\<rparr>
      in (case create_error af of
            Some e \<Rightarrow> (Some e, c1)
          | None \<Rightarrow>
              (if name nt \<in> set (list_topics c1)
               then (Some (TopicAlreadyExistsError (name nt)), c1)
               else (None, c1\<lparr>topics := topics c1 @ [nt]\<rparr>))))"

text \<open>
  The inner \<^verbatim>\<open>try\<close>: its first handler swallows \<^verbatim>\<open>TopicAlreadyExistsError\<close>, its second
  re-raises anything else, and \<^verbatim>\<open>finally\<close> closes the client, whose own exception
  would replace the pending one. A failure to connect happens before the inner
  \<^verbatim>\<open>try\<close>; the outer handler logs and re-raises.
\<close>

definition ensure_topic_exists ::
  "admin_faults \<Rightarrow> cluster \<Rightarrow> string \<Rightarrow> string \<Rightarrow> nat \<Rightarrow> nat \<Rightarrow> error option \<times> cluster" where
  "ensure_topic_exists af c bootstrap_servers topic_name partitions replication =
     (case connect_error af of
        Some e \<Rightarrow> (Some e, c)
      | None \<Rightarrow>
          (case (case list_error af of
                   Some e \<Rightarrow> (Some e, c)
                 | None \<Rightarrow>
                     (if topic_name \<notin> set (list_topics c)
                      then create_topics af c
                             \<lparr>name = topic_name, num_partitions = partitions,
                              replication_factor = replication\<rparr>
                      else (None, c))) of
             (raised, c1) \<Rightarrow>
               (let handled = (case raised of
                                 Some (TopicAlreadyExistsError m) \<Rightarrow> None
                               | other \<Rightarrow> other)
                in (case close_error af of
                      Some e \<Rightarrow> (Some e, c1)
                    | None \<Rightarrow> (handled, c1)))))"

subsection \<open>Publishing one event\<close>

text \<open>
  What the producer needs from outside: the JSON parser (with the exception it raises),
  the verdict of \<^verbatim>\<open>jsonschema.validate\<close> against \<^verbatim>\<open>schema.json\<close> (a file that is not
  part of the sources), the answer of \<^verbatim>\<open>get_bootstrap_brokers\<close>, the faults of the
  administrative client, an exception of the \<^verbatim>\<open>KafkaProducer\<close> constructor, the UUID
  drawn, an exception of \<^verbatim>\<open>send\<close> or of the wait for its acknowledgment, and the
  configured topic name.
\<close>

record ingest_env =
  json_loads :: "string \<Rightarrow> error + json"
  schema_valid :: "json \<Rightarrow> bool"
  bootstrap_brokers :: "error + string option"
  admin :: admin_faults
  producer_error :: "error option"
  uuid4 :: string
  send_error :: "error option"
  msk_topic_var :: "string option"

definition MSK_TOPIC :: "ingest_env \<Rightarrow> string" where
  "MSK_TOPIC env = (case msk_topic_var env of None \<Rightarrow> ''football-events'' | Some t \<Rightarrow> t)"

fun truthy :: "json \<Rightarrow> bool" where
  "truthy JNull = False"
| "truthy (JBool b) = b"
| "truthy (JInt i) = (i \<noteq> 0)"
| "truthy (JFloat m e) = (m \<noteq> 0)"
| "truthy (JStr s) = (s \<noteq> [])"
| "truthy (JArr xs) = (xs \<noteq> [])"
| "truthy (JObj d) = (d \<noteq> [])"

fun type_name :: "json \<Rightarrow> string" where
  "type_name JNull = ''NoneType''"
| "type_name (JBool b) = ''bool''"
| "type_name (JInt i) = ''int''"
| "type_name (JFloat m e) = ''float''"
| "type_name (JStr s) = ''str''"
| "type_name (JArr xs) = ''list''"
| "type_name (JObj d) = ''dict''"

definition attribute_error :: "json \<Rightarrow> string \<Rightarrow> error" where
  "attribute_error v attr =
     Exception ([CHR 0x27] @ type_name v @ [CHR 0x27] @ '' object has no attribute ''
                  @ [CHR 0x27] @ attr @ [CHR 0x27])"

definition get_bootstrap_servers :: "ingest_env \<Rightarrow> error + string" where
  "get_bootstrap_servers env =
     (case bootstrap_brokers env of
        Inl e \<Rightarrow> Inl e
      | Inr None \<Rightarrow>
          Inl (Exception ''Failed to get bootstrap servers. Check the cluster ARN and your permissions.'')
      | Inr (Some servers) \<Rightarrow>
          (if servers = []
           then Inl (Exception ''Failed to get bootstrap servers. Check the cluster ARN and your permissions.'')
           else Inr servers))"

text \<open>The producer handle is the bootstrap string it was built with.\<close>

definition get_kafka_producer :: "ingest_env \<Rightarrow> cluster \<Rightarrow> (error + string) \<times> cluster" where
  "get_kafka_producer env c =
     (case get_bootstrap_servers env of
        Inl e \<Rightarrow> (Inl e, c)
      | Inr bootstrap_servers \<Rightarrow>
          (case ensure_topic_exists (admin env) c bootstrap_servers (MSK_TOPIC env) 3 2 of
             (Some e, c1) \<Rightarrow> (Inl e, c1)
           | (None, c1) \<Rightarrow>
               (case producer_error env of
                  Some e \<Rightarrow> (Inl e, c1)
                | None \<Rightarrow> (Inr bootstrap_servers, c1))))"

definition publish_failed :: "error \<Rightarrow> response" where
  "publish_failed e =
     \<lparr>statusCode = 500, message = ''Error publishing event: '' @ str_error e, event_id = None\<rparr>"

definition process_event :: "ingest_env \<Rightarrow> cluster \<Rightarrow> json \<Rightarrow> response \<times> cluster" where
  "process_event env c body =
     (if \<not> schema_valid env body
      then (\<lparr>statusCode = 400, message = ''Invalid event format'', event_id = None\<rparr>, c)
      else (case body of
              JObj d \<Rightarrow>
                (let match_id = dict_get d ''match_id'' JNull
                 in if \<not> truthy match_id
                    then (\<lparr>statusCode = 400, message = ''match_id is required'', event_id = None\<rparr>, c)
                    else (case get_kafka_producer env c of
                            (Inl e, c1) \<Rightarrow> (publish_failed e, c1)
                          | (Inr producer, c1) \<Rightarrow>
                              (let d1 = (if \<not> dict_has d ''event_id''
                                         then AList.update ''event_id'' (JStr (uuid4 env)) d else d)
                               in (case match_id of
                                     JStr k \<Rightarrow>
                                       (case send_error env of
                                          Some e \<Rightarrow> (publish_failed e, c1)
                                        | None \<Rightarrow>
                                            (\<lparr>statusCode = 200,
                                              message = ''Event published successfully'',
                                              event_id = map_of d1 ''event_id''\<rparr>,
                                             c1\<lparr>published := published c1 @ [(MSK_TOPIC env, k, d1)]\<rparr>))
                                   | other \<Rightarrow> (publish_failed (attribute_error other ''encode''), c1)))))
            | other \<Rightarrow> (publish_failed (attribute_error other ''get''), c)))"

text \<open>
  The handler's event is API Gateway's: \<^verbatim>\<open>body\<close> may be missing, and when present it is
  a JSON value, a string in the regular case. \<^verbatim>\<open>json.loads\<close> raises \<^verbatim>\<open>TypeError\<close> on a
  value that is not a string and the parser's exception on a string that is not JSON;
  both are caught by the handler's only \<^verbatim>\<open>except\<close> clause.
\<close>

record api_event =
  body :: "json option"

definition loads_body :: "ingest_env \<Rightarrow> json \<Rightarrow> error + json" where
  "loads_body env raw =
     (case raw of
        JStr s \<Rightarrow> json_loads env s
      | other \<Rightarrow>
          Inl (Exception (''the JSON object must be str, bytes or bytearray, not '' @ type_name other)))"

definition lambda_handler_ingest :: "ingest_env \<Rightarrow> cluster \<Rightarrow> api_event \<Rightarrow> response \<times> cluster" where
  "lambda_handler_ingest env c event =
     (case body event of
        Some raw \<Rightarrow>
          (case loads_body env raw of
             Inl e \<Rightarrow>
               (\<lparr>statusCode = 500, message = ''Error processing request: '' @ str_error e,
                 event_id = None\<rparr>, c)
           | Inr parsed \<Rightarrow> process_event env c parsed)
      | None \<Rightarrow> (\<lparr>statusCode = 400, message = ''Missing request body'', event_id = None\<rparr>, c))"

section \<open>Notions used to state the properties\<close>

text \<open>
  The event that \<^verbatim>\<open>process_record\<close> returns for a decoded dict: the dict after the
  three assignments.
\<close>

definition enriched :: "(string \<Rightarrow> datetime option) \<Rightarrow> (json \<Rightarrow> string) \<Rightarrow> event \<Rightarrow> event" where
  "enriched fromisoformat str_of ev =
     (let e1 = AList.update ''season'' (JStr (derive_season fromisoformat (dict_get ev ''timestamp'' (JStr '''')))) ev;
          e2 = (if dict_has ev ''timestamp'' \<and> \<not> dict_has ev ''event_timestamp''
                then AList.update ''event_timestamp'' (dict_get ev ''timestamp'' JNull) e1 else e1)
      in AList.update ''event_type_timestamp''
           (JStr (format_value str_of (dict_get ev ''event_type'' (JStr ''unknown'')) @ ''#''
                    @ format_value str_of (dict_get e2 ''event_timestamp'' (JStr '''')))) e2)"

text \<open>A timestamp that is absent, or is not a string, or that the parser refuses.\<close>

definition timestamp_absent_or_unparsable :: "(string \<Rightarrow> datetime option) \<Rightarrow> event \<Rightarrow> bool" where
  "timestamp_absent_or_unparsable fromisoformat ev =
     (case map_of ev ''timestamp'' of
        None \<Rightarrow> True
      | Some (JStr s) \<Rightarrow> fromisoformat (replace_Z s) = None
      | Some other \<Rightarrow> True)"

text \<open>
  The two quantities the handler compares, said without the loops: the number of records
  received over all partitions, and the events that came out of decoding and enrichment.
\<close>

definition total_records_received :: "(string \<times> kafka_record list) list \<Rightarrow> nat" where
  "total_records_received parts = sum_list (map (\<lambda>(partition_key, recs). length recs) parts)"

definition enriched_events ::
  "(string \<Rightarrow> json option) \<Rightarrow> (string \<Rightarrow> datetime option) \<Rightarrow> (json \<Rightarrow> string) \<Rightarrow> (string \<times> kafka_record list) list \<Rightarrow> item list" where
  "enriched_events decode fromisoformat str_of parts =
     concat (map (\<lambda>(partition_key, recs). List.map_filter (process_record decode fromisoformat str_of) recs) parts)"

text \<open>
  What the writer has accepted so far: the table with the buffered requests applied.
  \<open>physical_calls n\<close> is the number of calls that \<open>n\<close> items need, and \<open>all_ok\<close> says that
  the calls numbered from \<open>a\<close> up to \<open>b\<close> (excluded) raise nothing.
\<close>

definition pending :: "batch_writer \<Rightarrow> store" where
  "pending w = foldl store_put (table w) (items_buffer w)"

definition physical_calls :: "nat \<Rightarrow> nat" where
  "physical_calls n = (n + 24) div 25"

definition all_ok :: "(nat \<Rightarrow> error option) \<Rightarrow> nat \<Rightarrow> nat \<Rightarrow> bool" where
  "all_ok faults a b = list_all (\<lambda>k. faults k = None) [a..<b]"

definition put_post ::
  "(nat \<Rightarrow> error option) \<Rightarrow> nat \<Rightarrow> nat \<Rightarrow> store \<Rightarrow> item list \<Rightarrow> error option \<times> batch_writer \<Rightarrow> bool" where
  "put_post faults c b p items r =
     ((fst r = None \<longleftrightarrow> all_ok faults c (c + (b + length items) div 25)) \<and>
      (fst r = None \<longrightarrow>
         calls (snd r) = c + (b + length items) div 25 \<and>
         length (items_buffer (snd r)) = (b + length items) mod 25 \<and>
         pending (snd r) = foldl store_put p items) \<and>
      (fst r \<noteq> None \<longrightarrow> items_buffer (snd r) = []))"

section \<open>Sample data\<close>

text \<open>
  The two events of the unit tests' sample batch; a decoder that knows a few payloads by
  name and fails on every other one; a rendering of the values that are not strings
  (Python's for \<^verbatim>\<open>None\<close>, booleans and integers); fault oracles for the store; batches
  for the consumer; and for the producer a cluster, administrative clients without and
  with a racing creator, and an environment in which everything succeeds.
\<close>

definition sample_goal :: event where
  "sample_goal =
     [(''match_id'', JStr ''match-123''), (''event_type'', JStr ''goal''),
      (''player_id'', JStr ''player-456''), (''team_id'', JStr ''team-789''),
      (''timestamp'', JStr ''2023-08-15T14:30:00Z''),
      (''details'', JObj [(''minute'', JInt 42), (''assist_player_id'', JStr ''player-789'')])]"

definition sample_card :: event where
  "sample_card =
     [(''match_id'', JStr ''match-123''), (''event_type'', JStr ''card''),
      (''player_id'', JStr ''player-456''), (''team_id'', JStr ''team-789''),
      (''timestamp'', JStr ''2023-08-15T14:35:00Z''),
      (''details'', JObj [(''minute'', JInt 47), (''card_type'', JStr ''yellow'')])]"

definition sample_decode :: "string \<Rightarrow> json option" where
  "sample_decode = map_of
     [(''goal'', JObj sample_goal),
      (''card'', JObj sample_card),
      (''override'', JObj [(''match_id'', JStr ''match-123''), (''event_type'', JStr ''goal''),
                           (''timestamp'', JStr ''2023-08-15T14:30:00Z''),
                           (''event_timestamp'', JStr ''2023-08-15T14:30:01Z'')]),
      (''undated'', JObj [(''match_id'', JStr ''match-123''), (''event_type'', JStr ''goal'')]),
      (''misdated'', JObj [(''match_id'', JStr ''match-123''), (''event_type'', JStr ''goal''),
                           (''timestamp'', JStr ''yesterday'')]),
      (''untyped'', JObj [(''match_id'', JStr ''match-123''),
                          (''timestamp'', JStr ''2023-08-15T14:30:00Z'')])]"

definition sample_str :: "json \<Rightarrow> string" where
  "sample_str v =
     (case v of
        JNull \<Rightarrow> ''None''
      | JBool b \<Rightarrow> (if b then ''True'' else ''False'')
      | JInt i \<Rightarrow> show_int i
      | _ \<Rightarrow> ''?'')"

definition no_faults :: "nat \<Rightarrow> error option" where
  "no_faults k = None"

definition second_call_fails :: "nat \<Rightarrow> error option" where
  "second_call_fails k = (if k = 1 then Some (Exception ''ProvisionedThroughputExceededException'') else None)"

definition numbered_items :: "nat \<Rightarrow> item list" where
  "numbered_items n =
     map (\<lambda>k. [(''match_id'', JStr ''match-123''), (''event_timestamp'', JStr (show_nat k))]) [0..<n]"

definition sample_parts :: "(string \<times> kafka_record list) list" where
  "sample_parts = [(''football-events-0'', [\<lparr>rec_value = Some ''goal''\<rparr>, \<lparr>rec_value = Some ''card''\<rparr>])]"

definition damaged_parts :: "(string \<times> kafka_record list) list" where
  "damaged_parts = [(''football-events-0'', [\<lparr>rec_value = Some ''goal''\<rparr>, \<lparr>rec_value = Some ''garbage''\<rparr>])]"

definition enriched_goal :: item where
  "enriched_goal = sample_goal @ [(''season'', JStr ''2023/2024''),
                          (''event_timestamp'', JStr ''2023-08-15T14:30:00Z''),
                          (''event_type_timestamp'', JStr ''goal#2023-08-15T14:30:00Z'')]"

definition enriched_card :: item where
  "enriched_card = sample_card @ [(''season'', JStr ''2023/2024''),
                          (''event_timestamp'', JStr ''2023-08-15T14:35:00Z''),
                          (''event_type_timestamp'', JStr ''card#2023-08-15T14:35:00Z'')]"

definition quiet_admin :: admin_faults where
  "quiet_admin = \<lparr>connect_error = None, list_error = None, racing_topics = [],
                  create_error = None, close_error = None\<rparr>"


definition empty_cluster :: cluster where
  "empty_cluster = \<lparr>topics = [], published = []\<rparr>"

definition sample_loads :: "string \<Rightarrow> error + json" where
  "sample_loads s =
     (case sample_decode s of
        Some j \<Rightarrow> Inr j
      | None \<Rightarrow> Inl (Exception ''Expecting value: line 1 column 1 (char 0)''))"

definition sample_env :: ingest_env where
  "sample_env =
     \<lparr>json_loads = sample_loads, schema_valid = (\<lambda>j. True),
      bootstrap_brokers = Inr (Some ''b-1.cluster:9098''), admin = quiet_admin,
      producer_error = None, uuid4 = ''1b4e28ba-2fa1-4d3b-a3f5-ef19b5a7633b'',
      send_error = None, msk_topic_var = None\<rparr>"

subsection \<open>A sample parser\<close>

text \<open>
  To run the definitions on the sample data a parser is needed. This one reads the format
  that \<^verbatim>\<open>datetime.isoformat\<close> writes,
  \<^verbatim>\<open>YYYY-MM-DD[*HH[:MM[:SS[.fff[fff]]]][+HH:MM[:SS[.ffffff]]]]\<close> with decimal digits and the
  range checks of the \<^verbatim>\<open>datetime\<close> constructor, and refuses every other string. It is
  not the library's parser, which accepts more in recent versions; no property below is
  about it, it only instantiates the parameter.
\<close>

definition is_digit :: "char \<Rightarrow> bool" where
  "is_digit c = ((48::nat) \<le> of_char c \<and> (of_char c :: nat) \<le> 57)"

fun digits_value :: "int \<Rightarrow> string \<Rightarrow> int option" where
  "digits_value acc [] = Some acc"
| "digits_value acc (c # cs) =
     (if is_digit c then digits_value (10 * acc + int ((of_char c :: nat) - 48)) cs else None)"

definition parse_digits :: "string \<Rightarrow> int option" where
  "parse_digits s = (if s = [] then None else digits_value 0 s)"

definition parse_isoformat_date :: "string \<Rightarrow> (int \<times> int \<times> int) option" where
  "parse_isoformat_date dstr =
     (if length dstr \<noteq> 10 then None
      else if dstr ! 4 \<noteq> CHR ''-'' \<or> dstr ! 7 \<noteq> CHR ''-'' then None
      else (case (parse_digits (take 4 dstr), parse_digits (take 2 (drop 5 dstr)),
                  parse_digits (take 2 (drop 8 dstr))) of
              (Some y, Some m, Some d) \<Rightarrow> Some (y, m, d)
            | _ \<Rightarrow> None))"

text \<open>
  \<^verbatim>\<open>HH[:MM[:SS[.fff[fff]]]]\<close>: up to three two-digit fields separated by colons, then
  an optional fraction of three or six digits.
\<close>

definition parse_fraction :: "string \<Rightarrow> int option" where
  "parse_fraction s =
     (if s = [] then Some 0
      else if hd s \<noteq> CHR ''.'' then None
      else if length (tl s) = 3 then map_option (\<lambda>v. v * 1000) (parse_digits (tl s))
      else if length (tl s) = 6 then parse_digits (tl s)
      else None)"

fun parse_fields :: "nat \<Rightarrow> string \<Rightarrow> (int list \<times> string) option" where
  "parse_fields 0 s = Some ([], s)"
| "parse_fields (Suc k) s =
     (if length s < 2 then None
      else (case parse_digits (take 2 s) of
              None \<Rightarrow> None
            | Some v \<Rightarrow>
                (if drop 2 s = [] \<or> k = 0 then Some ([v], drop 2 s)
                 else if s ! 2 \<noteq> CHR '':'' then None
                 else (case parse_fields k (drop 3 s) of
                         None \<Rightarrow> None
                       | Some (vs, rest) \<Rightarrow> Some (v # vs, rest)))))"

definition parse_hh_mm_ss_ff :: "string \<Rightarrow> (int \<times> int \<times> int \<times> int) option" where
  "parse_hh_mm_ss_ff tstr =
     (case parse_fields 3 tstr of
        None \<Rightarrow> None
      | Some (vs, rest) \<Rightarrow>
          (case parse_fraction rest of
             None \<Rightarrow> None
           | Some us \<Rightarrow>
               (let ws = vs @ replicate (3 - length vs) 0
                in Some (ws ! 0, ws ! 1, ws ! 2, us))))"

fun find_char :: "char \<Rightarrow> string \<Rightarrow> nat option" where
  "find_char c [] = None"
| "find_char c (x # xs) = (if x = c then Some 0 else map_option Suc (find_char c xs))"

text \<open>The offset starts at the first \<^verbatim>\<open>-\<close> if there is one, else at the first \<^verbatim>\<open>+\<close>.\<close>

definition find_tz :: "string \<Rightarrow> nat option" where
  "find_tz tstr =
     (case find_char (CHR ''-'') tstr of
        Some i \<Rightarrow> Some i
      | None \<Rightarrow> find_char (CHR ''+'') tstr)"

definition parse_isoformat_time :: "string \<Rightarrow> ((int \<times> int \<times> int \<times> int) \<times> int option) option" where
  "parse_isoformat_time tstr =
     (if length tstr < 2 then None
      else (case find_tz tstr of
              None \<Rightarrow> map_option (\<lambda>t. (t, None)) (parse_hh_mm_ss_ff tstr)
            | Some p \<Rightarrow>
                (case parse_hh_mm_ss_ff (take p tstr) of
                   None \<Rightarrow> None
                 | Some t \<Rightarrow>
                     (let tzstr = drop (Suc p) tstr
                      in if length tzstr \<notin> {5, 8, 15} then None
                         else (case parse_hh_mm_ss_ff tzstr of
                                 None \<Rightarrow> None
                               | Some (h, m, s, us) \<Rightarrow>
                                   (let off = ((h * 60 + m) * 60 + s) * 1000000 + us;
                                        signed = (if tstr ! p = CHR ''-'' then - off else off)
                                    in if off < 86400000000 then Some (t, Some signed)
                                       else None))))))"

definition is_leap :: "int \<Rightarrow> bool" where
  "is_leap y = (y mod 4 = 0 \<and> (y mod 100 \<noteq> 0 \<or> y mod 400 = 0))"

definition days_in_month :: "int \<Rightarrow> int \<Rightarrow> int" where
  "days_in_month y m =
     (if m = 2 then (if is_leap y then 29 else 28)
      else if m \<in> {4, 6, 9, 11} then 30 else 31)"

definition sample_fromisoformat :: "string \<Rightarrow> datetime option" where
  "sample_fromisoformat date_string =
     (case parse_isoformat_date (take 10 date_string) of
        None \<Rightarrow> None
      | Some (y, m, d) \<Rightarrow>
          (case (if length date_string = 10 then Some ((0, 0, 0, 0), None)
                 else parse_isoformat_time (drop 11 date_string)) of
             None \<Rightarrow> None
           | Some ((hh, mm, ss, us), tz) \<Rightarrow>
               (if 1 \<le> y \<and> y \<le> 9999 \<and> 1 \<le> m \<and> m \<le> 12 \<and> 1 \<le> d \<and> d \<le> days_in_month y m
                   \<and> hh < 24 \<and> mm < 60 \<and> ss < 60
                then Some \<lparr>year = y, month = m, day = d, hour = hh, minute = mm,
                           second = ss, microsecond = us, utcoffset = tz\<rparr>
                else None)))"

section \<open>Enrichment: what \<^verbatim>\<open>process_record\<close> returns\<close>

lemma derive_season_parsed:
  "fromisoformat (replace_Z s) = Some ts \<Longrightarrow>
     derive_season fromisoformat (JStr s) =
       (if month ts < 8 then show_int (year ts - 1) @ ''/'' @ show_int (year ts)
        else show_int (year ts) @ ''/'' @ show_int (year ts + 1))"
  by (simp add: derive_season_def Let_def)



lemma process_record_decoded:
  "rec_value r = Some v \<Longrightarrow> decode v = Some (JObj ev) \<Longrightarrow>
     process_record decode fromisoformat str_of r = Some (enriched fromisoformat str_of ev)"
  by (simp add: process_record_def enriched_def Let_def dict_has_def dict_get_def update_conv')

lemma process_record_SomeD:
  "process_record decode fromisoformat str_of r = Some it \<Longrightarrow>
     \<exists>v ev. rec_value r = Some v \<and> decode v = Some (JObj ev) \<and> it = enriched fromisoformat str_of ev"
proof (cases "rec_value r")
  case None
  assume "process_record decode fromisoformat str_of r = Some it"
  with None show ?thesis by (simp add: process_record_def)
next
  case (Some v)
  assume a: "process_record decode fromisoformat str_of r = Some it"
  show ?thesis
  proof (cases "decode v")
    case None
    with Some a show ?thesis by (simp add: process_record_def)
  next
    case (Some j)
    note dj = this
    show ?thesis
    proof (cases j)
      case (JObj ev)
      with \<open>rec_value r = Some v\<close> dj a process_record_decoded [of r v decode ev fromisoformat str_of]
      show ?thesis by simp
    qed (use \<open>rec_value r = Some v\<close> dj a in \<open>simp_all add: process_record_def\<close>)
  qed
qed

lemma enriched_event_type:
  "map_of (enriched fromisoformat str_of ev) ''event_type'' = map_of ev ''event_type''"
  by (simp add: enriched_def Let_def update_conv')

lemma enriched_event_timestamp:
  "map_of (enriched fromisoformat str_of ev) ''event_timestamp'' =
     (if dict_has ev ''timestamp'' \<and> \<not> dict_has ev ''event_timestamp''
      then map_of ev ''timestamp'' else map_of ev ''event_timestamp'')"
  by (auto simp: enriched_def Let_def update_conv' dict_has_def dict_get_def)


lemma enriched_composite:
  "map_of (enriched fromisoformat str_of ev) ''event_type_timestamp'' =
     Some (JStr (format_value str_of (dict_get (enriched fromisoformat str_of ev) ''event_type'' (JStr ''unknown''))
                  @ ''#'' @
                 format_value str_of (dict_get (enriched fromisoformat str_of ev) ''event_timestamp'' (JStr ''''))))"
proof -
  have a: "dict_get (enriched fromisoformat str_of ev) ''event_type'' (JStr ''unknown'')
             = dict_get ev ''event_type'' (JStr ''unknown'')"
    by (simp add: dict_get_def enriched_event_type)
  have b: "dict_get (enriched fromisoformat str_of ev) ''event_timestamp'' (JStr '''')
             = dict_get (if dict_has ev ''timestamp'' \<and> \<not> dict_has ev ''event_timestamp''
                then AList.update ''event_timestamp'' (dict_get ev ''timestamp'' JNull)
                       (AList.update ''season'' (JStr (derive_season fromisoformat (dict_get ev ''timestamp'' (JStr '''')))) ev)
                else AList.update ''season'' (JStr (derive_season fromisoformat (dict_get ev ''timestamp'' (JStr '''')))) ev)
                 ''event_timestamp'' (JStr '''')"
    unfolding dict_get_def enriched_event_timestamp
    by (auto simp: update_conv' dict_has_def dict_get_def)
  show ?thesis unfolding a b
    by (simp add: enriched_def Let_def update_conv')
qed

lemma enriched_nonempty: "enriched fromisoformat str_of ev \<noteq> []"
  by (simp add: enriched_def Let_def)

section \<open>The bulk write: which calls are made and what is stored\<close>

lemma all_ok_iff: "all_ok faults a b \<longleftrightarrow> (\<forall>k. a \<le> k \<and> k < b \<longrightarrow> faults k = None)"
  by (auto simp: all_ok_def list_all_iff)

lemma all_ok_step:
  "all_ok faults a (Suc a + m) \<longleftrightarrow> faults a = None \<and> all_ok faults (Suc a) (Suc a + m)"
  unfolding all_ok_iff
  by (metis Suc_leD Suc_leI le_neq_implies_less le_refl less_add_Suc1 add_Suc)

lemma all_ok_Suc: "all_ok faults 0 (Suc m) \<longleftrightarrow> all_ok faults 0 m \<and> faults m = None"
  unfolding all_ok_iff by (auto simp: less_Suc_eq)

lemma all_ok_mono: "all_ok faults a c \<Longrightarrow> b \<le> c \<Longrightarrow> all_ok faults a b"
  unfolding all_ok_iff by auto

lemma physical_calls_split:
  "physical_calls n = (if n mod 25 = 0 then n div 25 else Suc (n div 25))"
proof -
  define q r where "q = n div 25" and "r = n mod 25"
  have n: "n = r + q * 25" and r: "r < 25" by (simp_all add: q_def r_def)
  have "n + 24 = (r + 24) + q * 25" unfolding n by simp
  then have "(n + 24) div 25 = ((r + 24) + q * 25) div 25" by (rule arg_cong)
  also have "\<dots> = q + (r + 24) div 25" by (rule div_mult_self1) simp
  also have "(r + 24) div 25 = (if r = 0 then 0 else 1)"
    using r by (simp add: div_nat_eqI)
  finally show ?thesis by (simp add: physical_calls_def q_def r_def)
qed

lemma div_le_physical: "n div 25 \<le> physical_calls n"
  by (simp add: physical_calls_split)

lemma flush_short:
  "length (items_buffer w) \<le> 25 \<Longrightarrow>
     flush faults w =
       (faults (calls w),
        w\<lparr>items_buffer := [], calls := Suc (calls w),
          table := (if faults (calls w) = None then pending w else table w)\<rparr>)"
  by (cases "faults (calls w)") (simp_all add: flush_def flush_amount_def Let_def pending_def)

lemma writer_put_item_short:
  "length (items_buffer w) < 24 \<Longrightarrow>
     writer_put_item faults w it = (None, w\<lparr>items_buffer := items_buffer w @ [it]\<rparr>)"
  by (simp add: writer_put_item_def flush_amount_def Let_def)

lemma writer_put_item_full:
  "length (items_buffer w) = 24 \<Longrightarrow>
     writer_put_item faults w it =
       (faults (calls w),
        w\<lparr>items_buffer := [], calls := Suc (calls w),
          table := (if faults (calls w) = None then store_put (pending w) it else table w)\<rparr>)"
  by (simp add: writer_put_item_def flush_amount_def Let_def flush_short pending_def)

lemma put_post_full:
  "faults c = None \<Longrightarrow> put_post faults (Suc c) 0 (store_put p it) its r \<Longrightarrow>
     put_post faults c 24 p (it # its) r"
proof -
  assume f: "faults c = None" and a: "put_post faults (Suc c) 0 (store_put p it) its r"
  have d: "(24 + length (it # its)) div 25 = Suc (length its div 25)" by simp
  have m: "(24 + length (it # its)) mod 25 = length its mod 25" by simp
  have o: "all_ok faults c (c + Suc (length its div 25))
             \<longleftrightarrow> all_ok faults (Suc c) (Suc c + length its div 25)"
    using all_ok_step [of faults c "length its div 25"] f by simp
  show ?thesis using a unfolding put_post_def d m o by auto
qed

lemma put_post_short:
  "put_post faults c (Suc b) (store_put p it) its r \<Longrightarrow> put_post faults c b p (it # its) r"
  by (auto simp: put_post_def)

lemma put_post_fault:
  "faults c = Some e \<Longrightarrow> items_buffer w1 = [] \<Longrightarrow> put_post faults c 24 p (it # its) (Some e, w1)"
proof -
  assume f: "faults c = Some e" and b: "items_buffer w1 = []"
  have d: "(24 + length (it # its)) div 25 = Suc (length its div 25)" by simp
  have "\<not> all_ok faults c (c + Suc (length its div 25))"
    using all_ok_step [of faults c "length its div 25"] f by simp
  then show ?thesis unfolding put_post_def d using b by simp
qed

text \<open>
  The loop over the items: it ends without an exception exactly when none of the calls it
  makes raises, and then every item is in the table or in the buffer.
\<close>

lemma put_items_inv:
  "length (items_buffer w) < 25 \<Longrightarrow>
     put_post faults (calls w) (length (items_buffer w)) (pending w) items (put_items faults w items)"
proof (induction items arbitrary: w)
  case Nil
  then show ?case by (auto simp: put_post_def all_ok_iff)
next
  case (Cons it its)
  show ?case
  proof (cases "length (items_buffer w) = 24")
    case False
    with Cons.prems have short: "length (items_buffer w) < 24" by simp
    let ?w1 = "w\<lparr>items_buffer := items_buffer w @ [it]\<rparr>"
    have step: "put_items faults w (it # its) = put_items faults ?w1 its"
      by (simp add: writer_put_item_short [OF short])
    have len: "length (items_buffer ?w1) < 25" using short by simp
    have pend: "pending ?w1 = store_put (pending w) it" by (simp add: pending_def)
    from Cons.IH [OF len]
    have "put_post faults (calls w) (Suc (length (items_buffer w))) (store_put (pending w) it) its
            (put_items faults ?w1 its)"
      by (simp add: pend)
    then show ?thesis unfolding step by (rule put_post_short)
  next
    case True
    note full = this
    show ?thesis
    proof (cases "faults (calls w)")
      case (Some e)
      then have "put_items faults w (it # its) =
           (Some e, w\<lparr>items_buffer := [], calls := Suc (calls w), table := table w\<rparr>)"
        by (simp add: writer_put_item_full [OF full])
      then show ?thesis
        using Some put_post_fault [of faults "calls w" e
                "w\<lparr>items_buffer := [], calls := Suc (calls w), table := table w\<rparr>" "pending w" it its]
        by (simp add: full)
    next
      case None
      let ?w1 = "w\<lparr>items_buffer := [], calls := Suc (calls w), table := store_put (pending w) it\<rparr>"
      have step: "put_items faults w (it # its) = put_items faults ?w1 its"
        using None by (simp add: writer_put_item_full [OF full])
      have len: "length (items_buffer ?w1) < 25" by simp
      have pend: "pending ?w1 = store_put (pending w) it" by (simp add: pending_def)
      from Cons.IH [OF len]
      have "put_post faults (Suc (calls w)) 0 (store_put (pending w) it) its (put_items faults ?w1 its)"
        by (simp add: pend)
      from put_post_full [OF None this] show ?thesis unfolding step by (simp add: full)
    qed
  qed
qed

lemma writer_exit_empty: "items_buffer w = [] \<Longrightarrow> writer_exit faults w = (None, w)"
  by (subst writer_exit.simps) simp

lemma writer_exit_short:
  "length (items_buffer w) \<le> 25 \<Longrightarrow> items_buffer w \<noteq> [] \<Longrightarrow>
     writer_exit faults w =
       (faults (calls w),
        w\<lparr>items_buffer := [], calls := Suc (calls w),
          table := (if faults (calls w) = None then pending w else table w)\<rparr>)"
proof -
  assume le: "length (items_buffer w) \<le> 25" and ne: "items_buffer w \<noteq> []"
  show ?thesis
  proof (cases "faults (calls w)")
    case None
    then show ?thesis
      by (subst writer_exit.simps) (simp add: ne flush_short [OF le] writer_exit_empty)
  next
    case (Some e)
    then show ?thesis
      by (subst writer_exit.simps) (simp add: ne flush_short [OF le])
  qed
qed

text \<open>
  The whole \<^verbatim>\<open>with\<close> statement raises nothing exactly when none of the
  \<open>physical_calls\<close> does, and then the table holds every item.
\<close>

lemma with_batch_writer_result:
  "(fst (with_batch_writer faults t items) = None \<longleftrightarrow> all_ok faults 0 (physical_calls (length items)))
   \<and> (fst (with_batch_writer faults t items) = None \<longrightarrow>
        snd (with_batch_writer faults t items) = foldl store_put t items)"
proof -
  let ?w0 = "\<lparr>items_buffer = [], calls = 0, table = t\<rparr>"
  let ?n = "length items"
  obtain r w1 where put: "put_items faults ?w0 items = (r, w1)" by (cases "put_items faults ?w0 items")
  have "put_post faults (calls ?w0) (length (items_buffer ?w0)) (pending ?w0) items (put_items faults ?w0 items)"
    by (rule put_items_inv) simp
  then have post: "put_post faults 0 0 t items (r, w1)"
    by (simp add: put pending_def)
  have wbw: "with_batch_writer faults t items =
          (case writer_exit faults w1 of (Some e2, w2) \<Rightarrow> (Some e2, table w2) | (None, w2) \<Rightarrow> (r, table w2))"
    by (simp add: with_batch_writer_def put)
  show ?thesis
  proof (cases r)
    case (Some e)
    with post have b: "items_buffer w1 = []" and bad: "\<not> all_ok faults 0 (?n div 25)"
      by (simp_all add: put_post_def)
    have "\<not> all_ok faults 0 (physical_calls ?n)"
      using bad all_ok_mono [OF _ div_le_physical] by blast
    then show ?thesis
      using Some by (simp add: wbw writer_exit_empty [OF b])
  next
    case None
    with post have ok: "all_ok faults 0 (?n div 25)" and c: "calls w1 = ?n div 25"
      and l: "length (items_buffer w1) = ?n mod 25" and p: "pending w1 = foldl store_put t items"
      by (simp_all add: put_post_def)
    have le: "length (items_buffer w1) \<le> 25" using l by simp
    show ?thesis
    proof (cases "?n mod 25 = 0")
      case True
      then have e: "items_buffer w1 = []" using l by simp
      then have "table w1 = pending w1" by (simp add: pending_def)
      then show ?thesis
        using None ok p True by (simp add: wbw writer_exit_empty [OF e] physical_calls_split)
    next
      case False
      then have ne: "items_buffer w1 \<noteq> []" using l by auto
      show ?thesis
      proof (cases "faults (?n div 25)")
        case None
        then show ?thesis using \<open>r = None\<close> ok p c False
          by (simp add: wbw writer_exit_short [OF le ne] physical_calls_split all_ok_Suc)
      next
        case (Some e)
        then show ?thesis using \<open>r = None\<close> ok p c False
          by (simp add: wbw writer_exit_short [OF le ne] physical_calls_split all_ok_Suc)
      qed
    qed
  qed
qed

lemma batch_write_count:
  "fst (batch_write_to_dynamodb faults t items) =
     (if all_ok faults 0 (physical_calls (length items)) then length items else 0)"
proof (cases "items = []")
  case True
  then show ?thesis by (simp add: batch_write_to_dynamodb_def)
next
  case False
  obtain r t1 where w: "with_batch_writer faults t items = (r, t1)"
    by (cases "with_batch_writer faults t items")
  with with_batch_writer_result [of faults t items]
  have "r = None \<longleftrightarrow> all_ok faults 0 (physical_calls (length items))" by simp
  then show ?thesis using False w
    by (cases r) (simp_all add: batch_write_to_dynamodb_def)
qed

lemma batch_write_store:
  "all_ok faults 0 (physical_calls (length items)) \<Longrightarrow>
     snd (batch_write_to_dynamodb faults t items) = foldl store_put t items"
proof (cases "items = []")
  case True
  then show ?thesis by (simp add: batch_write_to_dynamodb_def)
next
  case False
  assume ok: "all_ok faults 0 (physical_calls (length items))"
  obtain r t1 where w: "with_batch_writer faults t items = (r, t1)"
    by (cases "with_batch_writer faults t items")
  with with_batch_writer_result [of faults t items] ok
  have "r = None" "t1 = foldl store_put t items" by simp_all
  then show ?thesis using False w by (simp add: batch_write_to_dynamodb_def)
qed

section \<open>The store: one item for each key\<close>

lemma store_put_distinct:
  "distinct (map item_key t) \<Longrightarrow> distinct (map item_key (store_put t it))"
  by (auto simp: store_put_def distinct_map_filter)

lemma foldl_store_put_distinct:
  "distinct (map item_key t) \<Longrightarrow> distinct (map item_key (foldl store_put t its))"
  by (induction its arbitrary: t) (simp_all add: store_put_distinct)

lemma flush_distinct:
  "distinct (map item_key (table w)) \<Longrightarrow> distinct (map item_key (table (snd (flush faults w))))"
  by (cases "faults (calls w)") (simp_all add: flush_def Let_def foldl_store_put_distinct)

lemma writer_put_item_distinct:
  "distinct (map item_key (table w)) \<Longrightarrow>
     distinct (map item_key (table (snd (writer_put_item faults w it))))"
  by (simp add: writer_put_item_def Let_def flush_distinct)

lemma put_items_distinct:
  "distinct (map item_key (table w)) \<Longrightarrow>
     distinct (map item_key (table (snd (put_items faults w its))))"
proof (induction its arbitrary: w)
  case Nil
  then show ?case by simp
next
  case (Cons it its)
  obtain r w1 where s: "writer_put_item faults w it = (r, w1)" by (cases "writer_put_item faults w it")
  with writer_put_item_distinct [OF Cons.prems, of faults it]
  have d: "distinct (map item_key (table w1))" by simp
  show ?case
  proof (cases r)
    case None
    with s Cons.IH [OF d] show ?thesis by simp
  next
    case (Some e)
    with s d show ?thesis by simp
  qed
qed

lemma writer_exit_distinct:
  "distinct (map item_key (table w)) \<Longrightarrow>
     distinct (map item_key (table (snd (writer_exit faults w))))"
proof (induction faults w rule: writer_exit.induct)
  case (1 faults w)
  show ?case
  proof (cases "items_buffer w = []")
    case True
    with "1.prems" show ?thesis by (simp add: writer_exit_empty)
  next
    case False
    obtain r w1 where f: "flush faults w = (r, w1)" by (cases "flush faults w")
    with flush_distinct [OF "1.prems", of faults]
    have d: "distinct (map item_key (table w1))" by simp
    show ?thesis
    proof (cases r)
      case None
      with "1.IH" [OF False f [symmetric] _ d] f False show ?thesis
        by (subst writer_exit.simps) simp
    next
      case (Some e)
      with f False d show ?thesis
        by (subst writer_exit.simps) simp
    qed
  qed
qed

lemma with_batch_writer_distinct:
  "distinct (map item_key t) \<Longrightarrow> distinct (map item_key (snd (with_batch_writer faults t items)))"
proof -
  assume d: "distinct (map item_key t)"
  let ?w0 = "\<lparr>items_buffer = [], calls = 0, table = t\<rparr>"
  obtain r w1 where p: "put_items faults ?w0 items = (r, w1)" by (cases "put_items faults ?w0 items")
  obtain r2 w2 where e: "writer_exit faults w1 = (r2, w2)" by (cases "writer_exit faults w1")
  have "distinct (map item_key (table (snd (put_items faults ?w0 items))))"
    by (rule put_items_distinct) (simp add: d)
  then have "distinct (map item_key (table w1))" by (simp add: p)
  then have "distinct (map item_key (table (snd (writer_exit faults w1))))"
    by (rule writer_exit_distinct)
  then have "distinct (map item_key (table w2))" by (simp add: e)
  then show ?thesis
    unfolding with_batch_writer_def p by (cases r2) (simp_all add: e)
qed

lemma batch_write_distinct:
  "distinct (map item_key t) \<Longrightarrow>
     distinct (map item_key (snd (batch_write_to_dynamodb faults t items)))"
proof -
  assume d: "distinct (map item_key t)"
  obtain r t1 where w: "with_batch_writer faults t items = (r, t1)"
    by (cases "with_batch_writer faults t items")
  with with_batch_writer_distinct [OF d, of faults items]
  have "distinct (map item_key t1)" by simp
  then show ?thesis
    using d w by (cases r) (simp_all add: batch_write_to_dynamodb_def)
qed

lemma with_batch_writer_single:
  "with_batch_writer faults t [it] = (faults 0, if faults 0 = None then store_put t it else t)"
proof -
  let ?w1 = "\<lparr>items_buffer = [it], calls = 0, table = t\<rparr>"
  have p: "put_items faults \<lparr>items_buffer = [], calls = 0, table = t\<rparr> [it] = (None, ?w1)"
    by (simp add: writer_put_item_def flush_amount_def Let_def)
  have e: "writer_exit faults ?w1 =
       (faults 0, ?w1\<lparr>items_buffer := [], calls := Suc 0,
                      table := (if faults 0 = None then pending ?w1 else t)\<rparr>)"
    using writer_exit_short [of ?w1 faults] by simp
  show ?thesis
    unfolding with_batch_writer_def p
    by (cases "faults 0") (simp_all add: e pending_def)
qed

lemma batch_write_single:
  "batch_write_to_dynamodb faults t [it] =
     (if faults 0 = None then (1, store_put t it) else (0, t))"
  by (cases "faults 0") (simp_all add: batch_write_to_dynamodb_def with_batch_writer_single)

lemma store_put_twice: "store_put (store_put t it) it = store_put t it"
  by (simp add: store_put_def)

lemma store_put_count:
  "length (filter (\<lambda>x. item_key x = item_key it) (store_put t it)) = 1"
proof -
  have "filter (\<lambda>x. item_key x = item_key it) (filter (\<lambda>x. item_key x \<noteq> item_key it) t) = []"
    by (simp add: filter_empty_conv)
  then show ?thesis by (simp add: store_put_def)
qed

section \<open>The handler: the loops and the comparison\<close>

lemma process_records_eq:
  "process_records decode fromisoformat str_of rs acc = acc @ List.map_filter (process_record decode fromisoformat str_of) rs"
proof (induction rs arbitrary: acc)
  case Nil
  show ?case by (simp add: map_filter_simps)
next
  case (Cons r rs)
  show ?case
  proof (cases "process_record decode fromisoformat str_of r")
    case None
    then show ?thesis by (simp add: Cons.IH map_filter_simps)
  next
    case (Some it)
    from process_record_SomeD [OF Some] have "it \<noteq> []" by (auto simp: enriched_nonempty)
    with Some show ?thesis by (simp add: Cons.IH map_filter_simps)
  qed
qed

lemma process_partitions_eq:
  "process_partitions decode fromisoformat str_of parts (n, acc) =
     (n + total_records_received parts, acc @ enriched_events decode fromisoformat str_of parts)"
proof (induction parts arbitrary: n acc)
  case Nil
  show ?case by (simp add: total_records_received_def enriched_events_def)
next
  case (Cons p ps)
  obtain pk recs where p: "p = (pk, recs)" by (cases p)
  show ?case
    unfolding p
    by (simp add: Cons.IH process_records_eq total_records_received_def enriched_events_def)
qed

lemma lambda_handler_eq:
  "records event = Some parts \<Longrightarrow>
     lambda_handler decode fromisoformat str_of faults t event =
       (let success_count = fst (batch_write_to_dynamodb faults t (enriched_events decode fromisoformat str_of parts));
            total_records = total_records_received parts
        in (if success_count \<noteq> total_records
            then Inl (Exception (failure_text success_count total_records))
            else Inr \<lparr>statusCode = 200,
                       message = show_nat success_count @ '' records processed successfully'',
                       event_id = None\<rparr>,
            snd (batch_write_to_dynamodb faults t (enriched_events decode fromisoformat str_of parts))))"
proof -
  assume r: "records event = Some parts"
  have pp: "process_partitions decode fromisoformat str_of parts (0, []) =
          (total_records_received parts, enriched_events decode fromisoformat str_of parts)"
    by (simp add: process_partitions_eq)
  have empty: "batch_write_to_dynamodb faults t [] = (0, t)"
    by (simp add: batch_write_to_dynamodb_def)
  show ?thesis
  proof (cases "enriched_events decode fromisoformat str_of parts = []")
    case True
    then show ?thesis
      by (simp add: lambda_handler_def r pp empty Let_def)
  next
    case False
    then show ?thesis
      by (simp add: lambda_handler_def r pp Let_def split: prod.splits)
  qed
qed


lemma map_filter_append:
  "List.map_filter f (xs @ ys) = List.map_filter f xs @ List.map_filter f ys"
  by (simp add: List.map_filter_def)

lemma enriched_events_flat:
  "enriched_events decode fromisoformat str_of parts =
     List.map_filter (process_record decode fromisoformat str_of) (concat (map snd parts))"
  by (induction parts) (auto simp: enriched_events_def map_filter_simps map_filter_append)

lemma total_records_flat: "total_records_received parts = length (concat (map snd parts))"
  by (induction parts) (auto simp: total_records_received_def)

section \<open>Properties of the enrichment\<close>

lemma sample_decode_goal: "sample_decode ''goal'' = Some (JObj sample_goal)"
  by (simp add: sample_decode_def)

lemma sample_decode_override:
  "sample_decode ''override'' =
     Some (JObj [(''match_id'', JStr ''match-123''), (''event_type'', JStr ''goal''),
                 (''timestamp'', JStr ''2023-08-15T14:30:00Z''),
                 (''event_timestamp'', JStr ''2023-08-15T14:30:01Z'')])"
  by (simp add: sample_decode_def)

lemma sample_decode_undated:
  "sample_decode ''undated'' =
     Some (JObj [(''match_id'', JStr ''match-123''), (''event_type'', JStr ''goal'')])"
  by (simp add: sample_decode_def)


lemma sample_goal_processed:
  "process_record sample_decode sample_fromisoformat sample_str \<lparr>rec_value = Some ''goal''\<rparr> =
     Some (sample_goal @ [(''season'', JStr ''2023/2024''),
                          (''event_timestamp'', JStr ''2023-08-15T14:30:00Z''),
                          (''event_type_timestamp'', JStr ''goal#2023-08-15T14:30:00Z'')])"
  by code_simp

lemma sample_card_processed:
  "process_record sample_decode sample_fromisoformat sample_str \<lparr>rec_value = Some ''card''\<rparr> =
     Some (sample_card @ [(''season'', JStr ''2023/2024''),
                          (''event_timestamp'', JStr ''2023-08-15T14:35:00Z''),
                          (''event_type_timestamp'', JStr ''card#2023-08-15T14:35:00Z'')])"
  by code_simp

text \<open>An event without \<^verbatim>\<open>event_type\<close> gets the default \<^verbatim>\<open>unknown\<close> in its composite key.\<close>

lemma sample_untyped_processed:
  "process_record sample_decode sample_fromisoformat sample_str \<lparr>rec_value = Some ''untyped''\<rparr> =
     Some [(''match_id'', JStr ''match-123''), (''timestamp'', JStr ''2023-08-15T14:30:00Z''),
           (''season'', JStr ''2023/2024''),
           (''event_timestamp'', JStr ''2023-08-15T14:30:00Z''),
           (''event_type_timestamp'', JStr ''unknown#2023-08-15T14:30:00Z'')]"
  by code_simp

lemma sample_garbage_processed:
  "process_record sample_decode sample_fromisoformat sample_str \<lparr>rec_value = Some ''garbage''\<rparr> = None"
  by code_simp

lemma replace_Z_july: "replace_Z ''2023-07-31T23:59:59Z'' = ''2023-07-31T23:59:59+00:00''"
  by (simp add: replace_Z_def)

lemma replace_Z_august: "replace_Z ''2023-08-01T00:00:00Z'' = ''2023-08-01T00:00:00+00:00''"
  by (simp add: replace_Z_def)

lemma replace_Z_january: "replace_Z ''2023-01-15T14:30:00Z'' = ''2023-01-15T14:30:00+00:00''"
  by (simp add: replace_Z_def)

lemma show_int_2022: "show_int 2022 = ''2022''"
  by code_simp

lemma show_int_2023: "show_int 2023 = ''2023''"
  by code_simp

lemma show_int_2024: "show_int 2024 = ''2024''"
  by code_simp

lemma sample_parse_july:
  "sample_fromisoformat ''2023-07-31T23:59:59+00:00'' =
     Some \<lparr>year = 2023, month = 7, day = 31, hour = 23, minute = 59, second = 59,
           microsecond = 0, utcoffset = Some 0\<rparr>"
  by code_simp

lemma sample_parse_august:
  "sample_fromisoformat ''2023-08-01T00:00:00+00:00'' =
     Some \<lparr>year = 2023, month = 8, day = 1, hour = 0, minute = 0, second = 0,
           microsecond = 0, utcoffset = Some 0\<rparr>"
  by code_simp

lemma sample_parse_january:
  "sample_fromisoformat ''2023-01-15T14:30:00+00:00'' =
     Some \<lparr>year = 2023, month = 1, day = 15, hour = 14, minute = 30, second = 0,
           microsecond = 0, utcoffset = Some 0\<rparr>"
  by code_simp

text \<open>
  Claim C3. Whatever the library's parser is: whenever it accepts the timestamp (after
  the replacement of \<^verbatim>\<open>Z\<close>), \<^verbatim>\<open>derive_season\<close> returns \<^verbatim>\<open>"{year-1}/{year}"\<close> for a month
  in 1..7 and \<^verbatim>\<open>"{year}/{year+1}"\<close> for a month in 8..12. In particular, with a parser
  that reads \<^verbatim>\<open>2023-07-31T23:59:59+00:00\<close> as a day of July 2023 and
  \<^verbatim>\<open>2023-08-01T00:00:00+00:00\<close> as a day of August 2023, as every version of
  \<^verbatim>\<open>datetime.fromisoformat\<close> does, the two boundary timestamps of the specification give
  \<^verbatim>\<open>2022/2023\<close> and \<^verbatim>\<open>2023/2024\<close>.
\<close>

theorem derive_season_rule:
  "(\<forall>s ts. fromisoformat (replace_Z s) = Some ts \<longrightarrow>
      (month ts \<in> {1..7} \<longrightarrow>
         derive_season fromisoformat (JStr s) = show_int (year ts - 1) @ ''/'' @ show_int (year ts)) \<and>
      (month ts \<in> {8..12} \<longrightarrow>
         derive_season fromisoformat (JStr s) = show_int (year ts) @ ''/'' @ show_int (year ts + 1)))
   \<and> (\<forall>ts. fromisoformat ''2023-07-31T23:59:59+00:00'' = Some ts \<and> year ts = 2023 \<and> month ts = 7
         \<longrightarrow> derive_season fromisoformat (JStr ''2023-07-31T23:59:59Z'') = ''2022/2023'')
   \<and> (\<forall>ts. fromisoformat ''2023-08-01T00:00:00+00:00'' = Some ts \<and> year ts = 2023 \<and> month ts = 8
         \<longrightarrow> derive_season fromisoformat (JStr ''2023-08-01T00:00:00Z'') = ''2023/2024'')"
proof (intro conjI allI impI)
  fix s ts assume p: "fromisoformat (replace_Z s) = Some ts"
  { assume "month ts \<in> {1..7}"
    then show "derive_season fromisoformat (JStr s) = show_int (year ts - 1) @ ''/'' @ show_int (year ts)"
      using derive_season_parsed [of fromisoformat s ts] p by simp }
  { assume "month ts \<in> {8..12}"
    then show "derive_season fromisoformat (JStr s) = show_int (year ts) @ ''/'' @ show_int (year ts + 1)"
      using derive_season_parsed [of fromisoformat s ts] p by simp }
next
  fix ts
  assume a: "fromisoformat ''2023-07-31T23:59:59+00:00'' = Some ts \<and> year ts = 2023 \<and> month ts = 7"
  then have "fromisoformat (replace_Z ''2023-07-31T23:59:59Z'') = Some ts"
    by (simp only: replace_Z_july)
  from derive_season_parsed [of fromisoformat "''2023-07-31T23:59:59Z''" ts] this a
  show "derive_season fromisoformat (JStr ''2023-07-31T23:59:59Z'') = ''2022/2023''"
    by (simp add: show_int_2022 show_int_2023)
next
  fix ts
  assume a: "fromisoformat ''2023-08-01T00:00:00+00:00'' = Some ts \<and> year ts = 2023 \<and> month ts = 8"
  then have "fromisoformat (replace_Z ''2023-08-01T00:00:00Z'') = Some ts"
    by (simp only: replace_Z_august)
  from derive_season_parsed [of fromisoformat "''2023-08-01T00:00:00Z''" ts] this a
  show "derive_season fromisoformat (JStr ''2023-08-01T00:00:00Z'') = ''2023/2024''"
    by (simp add: show_int_2023 show_int_2024)
qed

text \<open>
  The rule with the sample parser: the two boundary timestamps, and the January timestamp
  of the unit tests.
\<close>

theorem derive_season_rule_witness:
  "sample_fromisoformat ''2023-07-31T23:59:59+00:00'' =
     Some \<lparr>year = 2023, month = 7, day = 31, hour = 23, minute = 59, second = 59,
           microsecond = 0, utcoffset = Some 0\<rparr>
   \<and> derive_season sample_fromisoformat (JStr ''2023-07-31T23:59:59Z'') = ''2022/2023''
   \<and> sample_fromisoformat ''2023-08-01T00:00:00+00:00'' =
     Some \<lparr>year = 2023, month = 8, day = 1, hour = 0, minute = 0, second = 0,
           microsecond = 0, utcoffset = Some 0\<rparr>
   \<and> derive_season sample_fromisoformat (JStr ''2023-08-01T00:00:00Z'') = ''2023/2024''
   \<and> sample_fromisoformat (replace_Z ''2023-01-15T14:30:00Z'') =
     Some \<lparr>year = 2023, month = 1, day = 15, hour = 14, minute = 30, second = 0,
           microsecond = 0, utcoffset = Some 0\<rparr>
   \<and> derive_season sample_fromisoformat (JStr ''2023-01-15T14:30:00Z'')
       = show_int (2023 - 1) @ ''/'' @ show_int 2023"
proof -
  note inst = derive_season_rule [of sample_fromisoformat]
  have j: "sample_fromisoformat (replace_Z ''2023-01-15T14:30:00Z'') =
     Some \<lparr>year = 2023, month = 1, day = 15, hour = 14, minute = 30, second = 0,
           microsecond = 0, utcoffset = Some 0\<rparr>"
    by (simp only: replace_Z_january sample_parse_january)
  from inst sample_parse_july
  have a: "derive_season sample_fromisoformat (JStr ''2023-07-31T23:59:59Z'') = ''2022/2023''"
    by simp
  from inst sample_parse_august
  have b: "derive_season sample_fromisoformat (JStr ''2023-08-01T00:00:00Z'') = ''2023/2024''"
    by simp
  from inst have
    "sample_fromisoformat (replace_Z ''2023-01-15T14:30:00Z'') =
       Some \<lparr>year = 2023, month = 1, day = 15, hour = 14, minute = 30, second = 0,
             microsecond = 0, utcoffset = Some 0\<rparr> \<longrightarrow>
     (month \<lparr>year = 2023, month = 1, day = 15, hour = 14, minute = 30, second = 0,
             microsecond = 0, utcoffset = Some 0\<rparr> \<in> {1..7} \<longrightarrow>
      derive_season sample_fromisoformat (JStr ''2023-01-15T14:30:00Z'') =
        show_int (year \<lparr>year = 2023, month = 1, day = 15, hour = 14, minute = 30, second = 0,
             microsecond = 0, utcoffset = Some 0\<rparr> - 1) @ ''/'' @
        show_int (year \<lparr>year = 2023, month = 1, day = 15, hour = 14, minute = 30, second = 0,
             microsecond = 0, utcoffset = Some 0\<rparr>))"
    by blast
  with j have c: "derive_season sample_fromisoformat (JStr ''2023-01-15T14:30:00Z'')
       = show_int (2023 - 1) @ ''/'' @ show_int 2023"
    by simp
  from sample_parse_july a sample_parse_august b j c show ?thesis by blast
qed

text \<open>
  Claim C4. In every event that \<^verbatim>\<open>process_record\<close> returns, \<^verbatim>\<open>event_type_timestamp\<close> is the
  event's \<^verbatim>\<open>event_type\<close>, the single character \<^verbatim>\<open>#\<close> and the event's \<^verbatim>\<open>event_timestamp\<close>,
  in this order and with nothing else. Both fields are read as the source reads them
  (\<^verbatim>\<open>unknown\<close> and the empty string stand for a missing field, and a value that is not a
  string is written through \<^verbatim>\<open>str\<close>); for string fields this is plain concatenation.
\<close>

theorem composite_key:
  "process_record decode fromisoformat str_of r = Some it \<Longrightarrow>
     map_of it ''event_type_timestamp'' =
       Some (JStr (format_value str_of (dict_get it ''event_type'' (JStr ''unknown'')) @ ''#''
                    @ format_value str_of (dict_get it ''event_timestamp'' (JStr ''''))))
     \<and> (\<forall>ty ts. map_of it ''event_type'' = Some (JStr ty) \<longrightarrow>
                  map_of it ''event_timestamp'' = Some (JStr ts) \<longrightarrow>
                  map_of it ''event_type_timestamp'' = Some (JStr (ty @ ''#'' @ ts)))"
proof -
  assume "process_record decode fromisoformat str_of r = Some it"
  from process_record_SomeD [OF this] obtain ev where it: "it = enriched fromisoformat str_of ev" by blast
  have c: "map_of it ''event_type_timestamp'' =
       Some (JStr (format_value str_of (dict_get it ''event_type'' (JStr ''unknown'')) @ ''#''
                    @ format_value str_of (dict_get it ''event_timestamp'' (JStr ''''))))"
    unfolding it by (rule enriched_composite)
  show ?thesis
  proof (intro conjI allI impI)
    show "map_of it ''event_type_timestamp'' =
       Some (JStr (format_value str_of (dict_get it ''event_type'' (JStr ''unknown'')) @ ''#''
                    @ format_value str_of (dict_get it ''event_timestamp'' (JStr ''''))))"
      by (rule c)
  next
    fix ty ts
    assume "map_of it ''event_type'' = Some (JStr ty)" "map_of it ''event_timestamp'' = Some (JStr ts)"
    then show "map_of it ''event_type_timestamp'' = Some (JStr (ty @ ''#'' @ ts))"
      unfolding c by (simp add: dict_get_def format_value_def)
  qed
qed

text \<open>The goal event of the unit tests: its composite key is \<^verbatim>\<open>goal#2023-08-15T14:30:00Z\<close>.\<close>

theorem composite_key_witness:
  "process_record sample_decode sample_fromisoformat sample_str \<lparr>rec_value = Some ''goal''\<rparr> =
     Some (sample_goal @ [(''season'', JStr ''2023/2024''),
                          (''event_timestamp'', JStr ''2023-08-15T14:30:00Z''),
                          (''event_type_timestamp'', JStr ''goal#2023-08-15T14:30:00Z'')])
   \<and> map_of (sample_goal @ [(''season'', JStr ''2023/2024''),
                          (''event_timestamp'', JStr ''2023-08-15T14:30:00Z''),
                          (''event_type_timestamp'', JStr ''goal#2023-08-15T14:30:00Z'')])
        ''event_type_timestamp'' = Some (JStr (''goal'' @ ''#'' @ ''2023-08-15T14:30:00Z''))"
proof -
  note p = sample_goal_processed
  have a: "map_of (sample_goal @ [(''season'', JStr ''2023/2024''),
                          (''event_timestamp'', JStr ''2023-08-15T14:30:00Z''),
                          (''event_type_timestamp'', JStr ''goal#2023-08-15T14:30:00Z'')])
             ''event_type'' = Some (JStr ''goal'')"
    by (simp add: sample_goal_def)
  have b: "map_of (sample_goal @ [(''season'', JStr ''2023/2024''),
                          (''event_timestamp'', JStr ''2023-08-15T14:30:00Z''),
                          (''event_type_timestamp'', JStr ''goal#2023-08-15T14:30:00Z'')])
             ''event_timestamp'' = Some (JStr ''2023-08-15T14:30:00Z'')"
    by (simp add: sample_goal_def)
  from composite_key [OF p] a b
  have "map_of (sample_goal @ [(''season'', JStr ''2023/2024''),
                          (''event_timestamp'', JStr ''2023-08-15T14:30:00Z''),
                          (''event_type_timestamp'', JStr ''goal#2023-08-15T14:30:00Z'')])
        ''event_type_timestamp'' = Some (JStr (''goal'' @ ''#'' @ ''2023-08-15T14:30:00Z''))"
    by blast
  with p show ?thesis by (rule conjI)
qed

text \<open>
  Claim C6. For a decoded event that has \<^verbatim>\<open>timestamp\<close> and no \<^verbatim>\<open>event_timestamp\<close>, the
  enriched event's \<^verbatim>\<open>event_timestamp\<close> is the \<^verbatim>\<open>timestamp\<close>; an \<^verbatim>\<open>event_timestamp\<close> that
  the decoded event already has is left as it is. (With neither field, none is added.)
\<close>

theorem event_timestamp_backfill:
  "rec_value r = Some v \<Longrightarrow> decode v = Some (JObj ev) \<Longrightarrow>
     \<exists>it. process_record decode fromisoformat str_of r = Some it \<and>
       (\<forall>ts. map_of ev ''timestamp'' = Some ts \<and> map_of ev ''event_timestamp'' = None
              \<longrightarrow> map_of it ''event_timestamp'' = Some ts) \<and>
       (\<forall>x. map_of ev ''event_timestamp'' = Some x \<longrightarrow> map_of it ''event_timestamp'' = Some x) \<and>
       (map_of ev ''timestamp'' = None \<and> map_of ev ''event_timestamp'' = None
              \<longrightarrow> map_of it ''event_timestamp'' = None)"
proof -
  assume r: "rec_value r = Some v" and d: "decode v = Some (JObj ev)"
  have "process_record decode fromisoformat str_of r = Some (enriched fromisoformat str_of ev)"
    using process_record_decoded [of r v decode ev fromisoformat str_of] r d by simp
  moreover have "\<forall>ts. map_of ev ''timestamp'' = Some ts \<and> map_of ev ''event_timestamp'' = None
              \<longrightarrow> map_of (enriched fromisoformat str_of ev) ''event_timestamp'' = Some ts"
    by (simp add: enriched_event_timestamp dict_has_def)
  moreover have "\<forall>x. map_of ev ''event_timestamp'' = Some x
              \<longrightarrow> map_of (enriched fromisoformat str_of ev) ''event_timestamp'' = Some x"
    by (simp add: enriched_event_timestamp dict_has_def)
  moreover have "map_of ev ''timestamp'' = None \<and> map_of ev ''event_timestamp'' = None
              \<longrightarrow> map_of (enriched fromisoformat str_of ev) ''event_timestamp'' = None"
    by (simp add: enriched_event_timestamp dict_has_def)
  ultimately show ?thesis by blast
qed

text \<open>
  The goal event has a \<^verbatim>\<open>timestamp\<close> only and gets it as \<^verbatim>\<open>event_timestamp\<close>; the event
  that brings its own \<^verbatim>\<open>event_timestamp\<close> keeps it.
\<close>

theorem event_timestamp_backfill_witness:
  "rec_value \<lparr>rec_value = Some ''goal''\<rparr> = Some ''goal''
   \<and> sample_decode ''goal'' = Some (JObj sample_goal)
   \<and> map_of sample_goal ''timestamp'' = Some (JStr ''2023-08-15T14:30:00Z'')
   \<and> map_of sample_goal ''event_timestamp'' = None
   \<and> (\<exists>it. process_record sample_decode sample_fromisoformat sample_str \<lparr>rec_value = Some ''goal''\<rparr> = Some it
          \<and> map_of it ''event_timestamp'' = Some (JStr ''2023-08-15T14:30:00Z''))
   \<and> (\<exists>it. process_record sample_decode sample_fromisoformat sample_str \<lparr>rec_value = Some ''override''\<rparr> = Some it
          \<and> map_of it ''event_timestamp'' = Some (JStr ''2023-08-15T14:30:01Z''))"
proof -
  have r1: "rec_value \<lparr>rec_value = Some ''goal''\<rparr> = Some ''goal''" by simp
  have r2: "rec_value \<lparr>rec_value = Some ''override''\<rparr> = Some ''override''" by simp
  have a: "map_of sample_goal ''timestamp'' = Some (JStr ''2023-08-15T14:30:00Z'')"
    by (simp add: sample_goal_def)
  have b: "map_of sample_goal ''event_timestamp'' = None"
    by (simp add: sample_goal_def)
  have c: "map_of [(''match_id'', JStr ''match-123''), (''event_type'', JStr ''goal''),
                 (''timestamp'', JStr ''2023-08-15T14:30:00Z''),
                 (''event_timestamp'', JStr ''2023-08-15T14:30:01Z'')] ''event_timestamp''
            = Some (JStr ''2023-08-15T14:30:01Z'')"
    by simp
  from event_timestamp_backfill [of "\<lparr>rec_value = Some ''goal''\<rparr>" "''goal''" sample_decode sample_goal sample_fromisoformat sample_str]
    r1 sample_decode_goal a b
  have g: "\<exists>it. process_record sample_decode sample_fromisoformat sample_str \<lparr>rec_value = Some ''goal''\<rparr> = Some it
          \<and> map_of it ''event_timestamp'' = Some (JStr ''2023-08-15T14:30:00Z'')"
    by blast
  from event_timestamp_backfill [of "\<lparr>rec_value = Some ''override''\<rparr>" "''override''" sample_decode
      "[(''match_id'', JStr ''match-123''), (''event_type'', JStr ''goal''),
        (''timestamp'', JStr ''2023-08-15T14:30:00Z''),
        (''event_timestamp'', JStr ''2023-08-15T14:30:01Z'')]" sample_fromisoformat sample_str]
    r2 sample_decode_override c
  have h: "\<exists>it. process_record sample_decode sample_fromisoformat sample_str \<lparr>rec_value = Some ''override''\<rparr> = Some it
          \<and> map_of it ''event_timestamp'' = Some (JStr ''2023-08-15T14:30:01Z'')"
    by blast
  from r1 sample_decode_goal a b g h show ?thesis by blast
qed

section \<open>Properties of the handler and of the bulk write\<close>

lemma sample_parts_events:
  "enriched_events sample_decode sample_fromisoformat sample_str sample_parts = [enriched_goal, enriched_card]"
  by (simp add: enriched_events_def sample_parts_def map_filter_simps
        sample_goal_processed sample_card_processed enriched_goal_def enriched_card_def)

lemma damaged_parts_events:
  "enriched_events sample_decode sample_fromisoformat sample_str damaged_parts = [enriched_goal]"
  by (simp add: enriched_events_def damaged_parts_def map_filter_simps
        sample_goal_processed sample_garbage_processed enriched_goal_def)

lemma sample_parts_total: "total_records_received sample_parts = 2"
  by (simp add: total_records_received_def sample_parts_def)

lemma damaged_parts_total: "total_records_received damaged_parts = 2"
  by (simp add: total_records_received_def damaged_parts_def)

lemma no_faults_ok: "all_ok no_faults a b"
  by (simp add: all_ok_iff no_faults_def)

lemma sample_write_count:
  "fst (batch_write_to_dynamodb no_faults [] [enriched_goal, enriched_card]) = 2"
  by (simp add: batch_write_count no_faults_ok)

lemma damaged_write_count:
  "fst (batch_write_to_dynamodb no_faults [] [enriched_goal]) = 1"
  by (simp add: batch_write_count no_faults_ok)

lemma numbered_length: "length (numbered_items n) = n"
  by (simp add: numbered_items_def)

lemma second_call_not_ok: "\<not> all_ok second_call_fails 0 (physical_calls 26)"
  by (simp add: all_ok_iff physical_calls_def second_call_fails_def)

lemma partial_store:
  "snd (batch_write_to_dynamodb second_call_fails [] (numbered_items 26)) = numbered_items 25"
  by code_simp

text \<open>
  Claim C2. For an invocation whose event has \<^verbatim>\<open>records\<close>, the two accumulators of the
  loops are the number of records received over all partitions and the list of enriched
  events; the handler returns the response with status 200 exactly when the success
  count of the bulk write of that list equals the number of records received, and
  whenever the two differ it raises (the exception that makes the platform redeliver the
  batch), whatever made them differ.
\<close>

theorem ack_iff_counts_match:
  "records event = Some parts \<Longrightarrow>
     process_partitions decode fromisoformat str_of parts (0, [])
       = (total_records_received parts, enriched_events decode fromisoformat str_of parts)
     \<and> ((\<exists>resp. fst (lambda_handler decode fromisoformat str_of faults t event) = Inr resp \<and> statusCode resp = 200)
          \<longleftrightarrow> fst (batch_write_to_dynamodb faults t (enriched_events decode fromisoformat str_of parts))
                = total_records_received parts)
     \<and> (fst (batch_write_to_dynamodb faults t (enriched_events decode fromisoformat str_of parts))
           \<noteq> total_records_received parts \<longrightarrow>
         fst (lambda_handler decode fromisoformat str_of faults t event) =
           Inl (Exception (failure_text
                  (fst (batch_write_to_dynamodb faults t (enriched_events decode fromisoformat str_of parts)))
                  (total_records_received parts))))"
proof -
  assume r: "records event = Some parts"
  have a: "process_partitions decode fromisoformat str_of parts (0, [])
       = (total_records_received parts, enriched_events decode fromisoformat str_of parts)"
    by (simp add: process_partitions_eq)
  show ?thesis
  proof (cases "fst (batch_write_to_dynamodb faults t (enriched_events decode fromisoformat str_of parts))
                  = total_records_received parts")
    case True
    then show ?thesis using a by (simp add: lambda_handler_eq [OF r] Let_def)
  next
    case False
    then show ?thesis using a by (simp add: lambda_handler_eq [OF r] Let_def)
  qed
qed

text \<open>
  The sample batch of the unit tests is acknowledged (2 of 2); the same batch with an
  undecodable second record raises with 1 of 2.
\<close>

theorem ack_iff_counts_match_witness:
  "records \<lparr>records = Some sample_parts\<rparr> = Some sample_parts
   \<and> fst (batch_write_to_dynamodb no_faults [] (enriched_events sample_decode sample_fromisoformat sample_str sample_parts))
       = total_records_received sample_parts
   \<and> (\<exists>resp. fst (lambda_handler sample_decode sample_fromisoformat sample_str no_faults [] \<lparr>records = Some sample_parts\<rparr>)
               = Inr resp \<and> statusCode resp = 200)
   \<and> records \<lparr>records = Some damaged_parts\<rparr> = Some damaged_parts
   \<and> fst (batch_write_to_dynamodb no_faults [] (enriched_events sample_decode sample_fromisoformat sample_str damaged_parts))
       \<noteq> total_records_received damaged_parts
   \<and> fst (lambda_handler sample_decode sample_fromisoformat sample_str no_faults [] \<lparr>records = Some damaged_parts\<rparr>)
       = Inl (Exception (failure_text 1 2))"
proof -
  have r1: "records \<lparr>records = Some sample_parts\<rparr> = Some sample_parts" by simp
  have r2: "records \<lparr>records = Some damaged_parts\<rparr> = Some damaged_parts" by simp
  have c1: "fst (batch_write_to_dynamodb no_faults [] (enriched_events sample_decode sample_fromisoformat sample_str sample_parts))
       = total_records_received sample_parts"
    by (simp add: sample_parts_events sample_parts_total sample_write_count)
  have n2: "fst (batch_write_to_dynamodb no_faults [] (enriched_events sample_decode sample_fromisoformat sample_str damaged_parts)) = 1"
    by (simp add: damaged_parts_events damaged_write_count)
  have c2: "fst (batch_write_to_dynamodb no_faults [] (enriched_events sample_decode sample_fromisoformat sample_str damaged_parts))
       \<noteq> total_records_received damaged_parts"
    by (simp add: n2 damaged_parts_total)
  from ack_iff_counts_match [OF r1, of sample_decode sample_fromisoformat sample_str no_faults "[]"] c1
  have a: "\<exists>resp. fst (lambda_handler sample_decode sample_fromisoformat sample_str no_faults [] \<lparr>records = Some sample_parts\<rparr>)
               = Inr resp \<and> statusCode resp = 200"
    by blast
  from ack_iff_counts_match [OF r2, of sample_decode sample_fromisoformat sample_str no_faults "[]"] c2
  have "fst (lambda_handler sample_decode sample_fromisoformat sample_str no_faults [] \<lparr>records = Some damaged_parts\<rparr>)
       = Inl (Exception (failure_text
                  (fst (batch_write_to_dynamodb no_faults [] (enriched_events sample_decode sample_fromisoformat sample_str damaged_parts)))
                  (total_records_received damaged_parts)))"
    by blast
  then have b: "fst (lambda_handler sample_decode sample_fromisoformat sample_str no_faults [] \<lparr>records = Some damaged_parts\<rparr>)
       = Inl (Exception (failure_text 1 2))"
    by (simp add: n2 damaged_parts_total)
  from r1 c1 a r2 c2 b show ?thesis by blast
qed

text \<open>
  Claim C10. The success count of \<^verbatim>\<open>batch_write_to_dynamodb\<close> is the number of items when
  none of the physical calls raises and 0 otherwise, so it is never strictly between: an
  empty list gives 0 and leaves the table alone, a write that completes gives the number
  of items with every item stored, and a write that raises gives 0.
\<close>

theorem batch_write_all_or_nothing:
  "fst (batch_write_to_dynamodb faults t items)
      = (if all_ok faults 0 (physical_calls (length items)) then length items else 0)
   \<and> (fst (batch_write_to_dynamodb faults t items) = 0
        \<or> fst (batch_write_to_dynamodb faults t items) = length items)
   \<and> (items = [] \<longrightarrow> batch_write_to_dynamodb faults t items = (0, t))
   \<and> (fst (with_batch_writer faults t items) = None
        \<longleftrightarrow> all_ok faults 0 (physical_calls (length items)))
   \<and> (items \<noteq> [] \<and> fst (with_batch_writer faults t items) = None
        \<longrightarrow> batch_write_to_dynamodb faults t items = (length items, foldl store_put t items))
   \<and> (fst (with_batch_writer faults t items) \<noteq> None
        \<longrightarrow> fst (batch_write_to_dynamodb faults t items) = 0)"
proof (intro conjI impI)
  show c: "fst (batch_write_to_dynamodb faults t items)
      = (if all_ok faults 0 (physical_calls (length items)) then length items else 0)"
    by (rule batch_write_count)
  show "fst (batch_write_to_dynamodb faults t items) = 0
        \<or> fst (batch_write_to_dynamodb faults t items) = length items"
    unfolding c by simp
  show "items = [] \<Longrightarrow> batch_write_to_dynamodb faults t items = (0, t)"
    by (simp add: batch_write_to_dynamodb_def)
  show w: "fst (with_batch_writer faults t items) = None
        \<longleftrightarrow> all_ok faults 0 (physical_calls (length items))"
    using with_batch_writer_result [of faults t items] by blast
  show "fst (with_batch_writer faults t items) \<noteq> None
        \<Longrightarrow> fst (batch_write_to_dynamodb faults t items) = 0"
    unfolding c w by simp
  assume "items \<noteq> [] \<and> fst (with_batch_writer faults t items) = None"
  then have ok: "all_ok faults 0 (physical_calls (length items))" using w by blast
  have "batch_write_to_dynamodb faults t items
      = (fst (batch_write_to_dynamodb faults t items), snd (batch_write_to_dynamodb faults t items))"
    by simp
  also have "\<dots> = (length items, foldl store_put t items)"
    using ok by (simp only: c batch_write_store [OF ok] if_True)
  finally show "batch_write_to_dynamodb faults t items = (length items, foldl store_put t items)" .
qed

text \<open>
  26 items whose second physical call raises: the count is 0 although the first 25 items
  are stored. Without faults the count is 26.
\<close>

theorem batch_write_all_or_nothing_witness:
  "numbered_items 26 \<noteq> []
   \<and> fst (with_batch_writer second_call_fails [] (numbered_items 26)) \<noteq> None
   \<and> batch_write_to_dynamodb second_call_fails [] (numbered_items 26) = (0, numbered_items 25)
   \<and> length (numbered_items 25) = 25
   \<and> fst (with_batch_writer no_faults [] (numbered_items 26)) = None
   \<and> batch_write_to_dynamodb no_faults [] (numbered_items 26)
        = (26, foldl store_put [] (numbered_items 26))"
proof -
  have ne: "numbered_items 26 \<noteq> []"
    using numbered_length [of 26] by auto
  note thm1 = batch_write_all_or_nothing [of second_call_fails "[]" "numbered_items 26"]
  note thm2 = batch_write_all_or_nothing [of no_faults "[]" "numbered_items 26"]
  from thm1 second_call_not_ok
  have x: "fst (with_batch_writer second_call_fails [] (numbered_items 26)) \<noteq> None"
    by (simp add: numbered_length)
  with thm1 have "fst (batch_write_to_dynamodb second_call_fails [] (numbered_items 26)) = 0"
    by blast
  with partial_store
  have a: "batch_write_to_dynamodb second_call_fails [] (numbered_items 26) = (0, numbered_items 25)"
    by (simp add: prod_eq_iff)
  from thm2 no_faults_ok [of 0 "physical_calls (length (numbered_items 26))"]
  have y: "fst (with_batch_writer no_faults [] (numbered_items 26)) = None"
    by blast
  with thm2 ne
  have b: "batch_write_to_dynamodb no_faults [] (numbered_items 26)
        = (26, foldl store_put [] (numbered_items 26))"
    by (simp add: numbered_length)
  from ne x a numbered_length [of 25] y b show ?thesis by blast
qed

text \<open>
  Claim C1 says that a batch of two records of which exactly one fails to decode leaves
  nothing stored. On the sample batch with an undecodable second record and a store that
  accepts the write, the handler raises and the goal event is stored.
\<close>

theorem one_decode_failure_counterexample:
  "process_record sample_decode sample_fromisoformat sample_str \<lparr>rec_value = Some ''goal''\<rparr> = Some enriched_goal
   \<and> process_record sample_decode sample_fromisoformat sample_str \<lparr>rec_value = Some ''garbage''\<rparr> = None
   \<and> fst (lambda_handler sample_decode sample_fromisoformat sample_str no_faults [] \<lparr>records = Some damaged_parts\<rparr>)
        = Inl (Exception ''Processed 1 out of 2 records successfully'')
   \<and> snd (lambda_handler sample_decode sample_fromisoformat sample_str no_faults [] \<lparr>records = Some damaged_parts\<rparr>)
        = [enriched_goal]
   \<and> length (snd (lambda_handler sample_decode sample_fromisoformat sample_str no_faults [] \<lparr>records = Some damaged_parts\<rparr>))
        \<noteq> 0"
proof -
  have a: "process_record sample_decode sample_fromisoformat sample_str \<lparr>rec_value = Some ''goal''\<rparr> = Some enriched_goal"
    by (simp add: sample_goal_processed enriched_goal_def)
  have t: "failure_text 1 2 = ''Processed 1 out of 2 records successfully''"
    by code_simp
  have l: "lambda_handler sample_decode sample_fromisoformat sample_str no_faults [] \<lparr>records = Some damaged_parts\<rparr>
           = (Inl (Exception ''Processed 1 out of 2 records successfully''), [enriched_goal])"
    by (simp add: lambda_handler_eq [of _ damaged_parts] damaged_parts_events damaged_parts_total
          batch_write_single no_faults_def store_put_def t [symmetric] Let_def)
  from a sample_garbage_processed l show ?thesis by simp
qed

text \<open>
  Claim C1, amended. When the batch holds two records and exactly one of them yields no
  event, the handler raises, and the event of the other record has been handed to the
  bulk write before: if the one physical call succeeds, exactly that item is put into
  the store (and the message counts 1 of 2); the store is left as it was only if that
  call raises (0 of 2).
\<close>

theorem one_decode_failure:
  "records event = Some parts \<Longrightarrow> concat (map snd parts) = [r1, r2] \<Longrightarrow>
   (process_record decode fromisoformat str_of r1 = Some it \<and> process_record decode fromisoformat str_of r2 = None)
     \<or> (process_record decode fromisoformat str_of r1 = None \<and> process_record decode fromisoformat str_of r2 = Some it) \<Longrightarrow>
   lambda_handler decode fromisoformat str_of faults t event =
     (Inl (Exception (failure_text (if faults 0 = None then 1 else 0) 2)),
      if faults 0 = None then store_put t it else t)"
proof -
  assume r: "records event = Some parts" and f: "concat (map snd parts) = [r1, r2]"
    and o: "(process_record decode fromisoformat str_of r1 = Some it \<and> process_record decode fromisoformat str_of r2 = None)
     \<or> (process_record decode fromisoformat str_of r1 = None \<and> process_record decode fromisoformat str_of r2 = Some it)"
  have e: "enriched_events decode fromisoformat str_of parts = [it]"
    using o by (auto simp: enriched_events_flat f map_filter_simps)
  have n: "total_records_received parts = 2"
    by (simp add: total_records_flat f)
  show ?thesis
    by (simp add: lambda_handler_eq [OF r] e n batch_write_single Let_def)
qed

text \<open>The sample batch with an undecodable second record; the first physical call succeeds.\<close>

theorem one_decode_failure_witness:
  "records \<lparr>records = Some damaged_parts\<rparr> = Some damaged_parts
   \<and> concat (map snd damaged_parts) = [\<lparr>rec_value = Some ''goal''\<rparr>, \<lparr>rec_value = Some ''garbage''\<rparr>]
   \<and> process_record sample_decode sample_fromisoformat sample_str \<lparr>rec_value = Some ''goal''\<rparr> = Some enriched_goal
   \<and> process_record sample_decode sample_fromisoformat sample_str \<lparr>rec_value = Some ''garbage''\<rparr> = None
   \<and> lambda_handler sample_decode sample_fromisoformat sample_str second_call_fails [] \<lparr>records = Some damaged_parts\<rparr>
       = (Inl (Exception (failure_text 1 2)), store_put [] enriched_goal)"
proof -
  have r: "records \<lparr>records = Some damaged_parts\<rparr> = Some damaged_parts" by simp
  have c: "concat (map snd damaged_parts) = [\<lparr>rec_value = Some ''goal''\<rparr>, \<lparr>rec_value = Some ''garbage''\<rparr>]"
    by (simp add: damaged_parts_def)
  have a: "process_record sample_decode sample_fromisoformat sample_str \<lparr>rec_value = Some ''goal''\<rparr> = Some enriched_goal"
    by (simp add: sample_goal_processed enriched_goal_def)
  have z: "second_call_fails 0 = None" by (simp add: second_call_fails_def)
  from one_decode_failure [OF r c, of sample_decode sample_fromisoformat sample_str enriched_goal second_call_fails "[]"]
    a sample_garbage_processed z
  have "lambda_handler sample_decode sample_fromisoformat sample_str second_call_fails [] \<lparr>records = Some damaged_parts\<rparr>
       = (Inl (Exception (failure_text 1 2)), store_put [] enriched_goal)"
    by simp
  with r c a sample_garbage_processed show ?thesis by blast
qed

text \<open>
  Claim C5. A bulk write never leaves two items with the same key
  (\<^verbatim>\<open>match_id\<close>, \<^verbatim>\<open>event_timestamp\<close>) in the store; and writing the same item a second
  time, when both writes succeed, leaves the store exactly as the first write left it,
  with exactly one item under that key.
\<close>

theorem rewrite_is_overwrite:
  "(distinct (map item_key t) \<longrightarrow>
      distinct (map item_key (snd (batch_write_to_dynamodb faults t items))))
   \<and> (faults1 0 = None \<and> faults2 0 = None \<longrightarrow>
        batch_write_to_dynamodb faults1 t [it] = (1, store_put t it)
        \<and> batch_write_to_dynamodb faults2 (store_put t it) [it] = (1, store_put t it)
        \<and> length (filter (\<lambda>x. item_key x = item_key it) (store_put t it)) = 1
        \<and> it \<in> set (store_put t it))"
proof (intro conjI impI)
  assume "distinct (map item_key t)"
  then show "distinct (map item_key (snd (batch_write_to_dynamodb faults t items)))"
    by (rule batch_write_distinct)
next
  assume "faults1 0 = None \<and> faults2 0 = None"
  then show "batch_write_to_dynamodb faults1 t [it] = (1, store_put t it)"
    and "batch_write_to_dynamodb faults2 (store_put t it) [it] = (1, store_put t it)"
    by (simp_all add: batch_write_single store_put_twice)
next
  show "length (filter (\<lambda>x. item_key x = item_key it) (store_put t it)) = 1"
    by (rule store_put_count)
next
  show "it \<in> set (store_put t it)" by (simp add: store_put_def)
qed

text \<open>The goal event written twice into a store that holds the card event.\<close>

theorem rewrite_is_overwrite_witness:
  "distinct (map item_key [enriched_card])
   \<and> no_faults 0 = None
   \<and> batch_write_to_dynamodb no_faults [enriched_card] [enriched_goal]
        = (1, [enriched_card, enriched_goal])
   \<and> batch_write_to_dynamodb no_faults [enriched_card, enriched_goal] [enriched_goal]
        = (1, [enriched_card, enriched_goal])
   \<and> length (filter (\<lambda>x. item_key x = item_key enriched_goal) [enriched_card, enriched_goal]) = 1
   \<and> distinct (map item_key [enriched_card, enriched_goal])"
proof -
  have d: "distinct (map item_key [enriched_card])" by simp
  have z: "no_faults 0 = None" by (simp add: no_faults_def)
  have s: "store_put [enriched_card] enriched_goal = [enriched_card, enriched_goal]"
    by code_simp
  note inst = rewrite_is_overwrite [of "[enriched_card]" no_faults "[enriched_goal]" no_faults no_faults enriched_goal]
  from inst z have a: "batch_write_to_dynamodb no_faults [enriched_card] [enriched_goal]
        = (1, [enriched_card, enriched_goal])"
    by (simp add: s)
  from inst z have b: "batch_write_to_dynamodb no_faults [enriched_card, enriched_goal] [enriched_goal]
        = (1, [enriched_card, enriched_goal])"
    by (simp add: s)
  from inst z have c: "length (filter (\<lambda>x. item_key x = item_key enriched_goal) [enriched_card, enriched_goal]) = 1"
    by (simp add: s)
  from inst d a have e: "distinct (map item_key [enriched_card, enriched_goal])"
    by simp
  from d z a b c e show ?thesis by blast
qed




lemma undated_unparsable:
  "timestamp_absent_or_unparsable sample_fromisoformat
     [(''match_id'', JStr ''match-123''), (''event_type'', JStr ''goal'')]"
  by code_simp



section \<open>Properties of the producer\<close>




lemma sample_loads_garbage:
  "json_loads sample_env ''garbage'' = Inl (Exception ''Expecting value: line 1 column 1 (char 0)'')"
  by (simp add: sample_env_def sample_loads_def sample_decode_def)

text \<open>
  Claim C8 says that a body that is present but is not JSON is answered with status 400.
  On such a body the handler answers 500.
\<close>

theorem unparsable_body_counterexample:
  "body \<lparr>body = Some (JStr ''garbage'')\<rparr> = Some (JStr ''garbage'')
   \<and> json_loads sample_env ''garbage'' = Inl (Exception ''Expecting value: line 1 column 1 (char 0)'')
   \<and> statusCode (fst (lambda_handler_ingest sample_env empty_cluster \<lparr>body = Some (JStr ''garbage'')\<rparr>)) \<noteq> 400
   \<and> fst (lambda_handler_ingest sample_env empty_cluster \<lparr>body = Some (JStr ''garbage'')\<rparr>)
       = \<lparr>statusCode = 500,
          message = ''Error processing request: Expecting value: line 1 column 1 (char 0)'',
          event_id = None\<rparr>"
  by (simp add: lambda_handler_ingest_def loads_body_def sample_loads_garbage)

text \<open>
  Claim C8, amended. When \<^verbatim>\<open>json.loads\<close> raises on the body (a string that is not JSON,
  or a value that is not a string), the handler's only \<^verbatim>\<open>except\<close> clause answers with
  status 500 and the text of the exception, and nothing is published. Status 400 is the
  answer to an event without \<^verbatim>\<open>body\<close>.
\<close>

theorem unparsable_body_is_server_error:
  "(\<forall>raw e. body event = Some raw \<and> loads_body env raw = Inl e \<longrightarrow>
       lambda_handler_ingest env c event =
         (\<lparr>statusCode = 500, message = ''Error processing request: '' @ str_error e,
           event_id = None\<rparr>, c))
   \<and> (\<forall>s e. body event = Some (JStr s) \<and> json_loads env s = Inl e \<longrightarrow>
       statusCode (fst (lambda_handler_ingest env c event)) = 500
       \<and> snd (lambda_handler_ingest env c event) = c)
   \<and> (body event = None \<longrightarrow>
       lambda_handler_ingest env c event =
         (\<lparr>statusCode = 400, message = ''Missing request body'', event_id = None\<rparr>, c))"
  by (simp add: lambda_handler_ingest_def loads_body_def)

text \<open>The body \<^verbatim>\<open>garbage\<close>, which the sample \<^verbatim>\<open>json.loads\<close> refuses.\<close>

theorem unparsable_body_is_server_error_witness:
  "body \<lparr>body = Some (JStr ''garbage'')\<rparr> = Some (JStr ''garbage'')
   \<and> json_loads sample_env ''garbage'' = Inl (Exception ''Expecting value: line 1 column 1 (char 0)'')
   \<and> statusCode (fst (lambda_handler_ingest sample_env empty_cluster \<lparr>body = Some (JStr ''garbage'')\<rparr>)) = 500
   \<and> snd (lambda_handler_ingest sample_env empty_cluster \<lparr>body = Some (JStr ''garbage'')\<rparr>) = empty_cluster"
proof -
  have b: "body \<lparr>body = Some (JStr ''garbage'')\<rparr> = Some (JStr ''garbage'')" by simp
  from unparsable_body_is_server_error
         [of "\<lparr>body = Some (JStr ''garbage'')\<rparr>" sample_env empty_cluster] b sample_loads_garbage
  have "statusCode (fst (lambda_handler_ingest sample_env empty_cluster \<lparr>body = Some (JStr ''garbage'')\<rparr>)) = 500
   \<and> snd (lambda_handler_ingest sample_env empty_cluster \<lparr>body = Some (JStr ''garbage'')\<rparr>) = empty_cluster"
    by blast
  with b sample_loads_garbage show ?thesis by blast
qed

end
